theory Spec2Isabelle
  imports
    Complex_Main
    "HOL-Library.Log_Nat"
    "HOL-Library.AList"
    "HOL-Library.Char_ord"
    "HOL-Library.List_Lexorder"
begin

section \<open>Python values\<close>

text \<open>
  The program is \<^verbatim>\<open>HR_Employee_Management.py\<close>. Its employee attributes live in
  dictionaries of dynamically typed values, and its salary rules are written with Python's
  \<^verbatim>\<open>*\<close>, \<^verbatim>\<open>+\<close>, \<^verbatim>\<open>min\<close> and \<^verbatim>\<open>round\<close> on ints and floats. The model keeps both: a
  datatype of the Python values that can reach the code, and the arithmetic of CPython on
  them, with every exception as an \<open>Inl\<close> result.
\<close>

datatype py_error =
    NotImplementedError
  | TypeError
  | ValueError
  | KeyError
  | AttributeError
  | OverflowError
  | ReadError

subsection \<open>Binary64 floats\<close>

text \<open>
  A Python float is an IEEE 754 binary64 number. A finite one is represented by its exact
  value, a rational; arithmetic computes the exact result and rounds it to the nearest
  representable value, ties to even, as the hardware does. The two zeros are one value here
  (\<^verbatim>\<open>-0.0 == 0.0\<close> in Python, and the program never looks at the sign of zero).
\<close>

datatype pyfloat = Finite rat | PosInf | NegInf | NaN

text \<open>\<open>ilog2 x\<close> is the exponent \<open>e\<close> with \<open>2^e \<le> |x| < 2^(e+1)\<close>, for \<open>x \<noteq> 0\<close>.\<close>

definition ilog2 :: "rat \<Rightarrow> int" where
  "ilog2 x = (let (p, q) = quotient_of \<bar>x\<bar>; d = bitlen p - bitlen q
              in if 2 powi d \<le> \<bar>x\<bar> then d else d - 1)"

definition round_half_even :: "rat \<Rightarrow> int" where
  "round_half_even x = (let f = \<lfloor>x\<rfloor>; d = x - of_int f
     in if d < 1/2 then f else if 1/2 < d then f + 1 else if even f then f else f + 1)"

text \<open>
  The spacing of the doubles around \<open>x\<close> is \<open>2 powi quantum x\<close>: 53 significant bits, and
  the fixed spacing \<open>2^-1074\<close> of the subnormal range below \<open>2^-1022\<close>.
\<close>

definition quantum :: "rat \<Rightarrow> int" where
  "quantum x = max (ilog2 x - 52) (- 1074)"

definition fl :: "rat \<Rightarrow> rat" where
  "fl x = (if x = 0 then 0
           else of_int (round_half_even (x / 2 powi quantum x)) * 2 powi quantum x)"

text \<open>Rounding a real result to a double; a result beyond the largest double is infinite.\<close>

definition to_double :: "rat \<Rightarrow> pyfloat" where
  "to_double x = (let y = fl x
     in if 2 ^ 1024 \<le> y then PosInf else if y \<le> - (2 ^ 1024) then NegInf else Finite y)"

text \<open>A decimal literal of the source, such as \<^verbatim>\<open>0.05\<close>, is the double nearest to it.\<close>

definition float_lit :: "rat \<Rightarrow> pyfloat" where
  "float_lit q = to_double q"

text \<open>Converting an int to a float rounds to nearest and raises when the int is too large.\<close>

definition int_to_float :: "int \<Rightarrow> py_error + pyfloat" where
  "int_to_float n = (case to_double (of_int n) of
       Finite y \<Rightarrow> Inr (Finite y)
     | _ \<Rightarrow> Inl OverflowError)"

fun float_mul :: "pyfloat \<Rightarrow> pyfloat \<Rightarrow> pyfloat" where
  "float_mul NaN _ = NaN"
| "float_mul _ NaN = NaN"
| "float_mul (Finite a) (Finite b) = to_double (a * b)"
| "float_mul (Finite a) PosInf = (if a = 0 then NaN else if 0 < a then PosInf else NegInf)"
| "float_mul (Finite a) NegInf = (if a = 0 then NaN else if 0 < a then NegInf else PosInf)"
| "float_mul PosInf (Finite b) = (if b = 0 then NaN else if 0 < b then PosInf else NegInf)"
| "float_mul NegInf (Finite b) = (if b = 0 then NaN else if 0 < b then NegInf else PosInf)"
| "float_mul PosInf PosInf = PosInf"
| "float_mul PosInf NegInf = NegInf"
| "float_mul NegInf PosInf = NegInf"
| "float_mul NegInf NegInf = PosInf"

fun float_add :: "pyfloat \<Rightarrow> pyfloat \<Rightarrow> pyfloat" where
  "float_add NaN _ = NaN"
| "float_add _ NaN = NaN"
| "float_add (Finite a) (Finite b) = to_double (a + b)"
| "float_add (Finite a) PosInf = PosInf"
| "float_add (Finite a) NegInf = NegInf"
| "float_add PosInf (Finite b) = PosInf"
| "float_add NegInf (Finite b) = NegInf"
| "float_add PosInf PosInf = PosInf"
| "float_add PosInf NegInf = NaN"
| "float_add NegInf PosInf = NaN"
| "float_add NegInf NegInf = NegInf"

text \<open>The order of floats: \<open>NaN\<close> is neither below nor above anything.\<close>

fun float_lt :: "pyfloat \<Rightarrow> pyfloat \<Rightarrow> bool" where
  "float_lt NaN _ = False"
| "float_lt _ NaN = False"
| "float_lt (Finite a) (Finite b) = (a < b)"
| "float_lt (Finite a) PosInf = True"
| "float_lt (Finite a) NegInf = False"
| "float_lt PosInf _ = False"
| "float_lt NegInf NegInf = False"
| "float_lt NegInf _ = True"

fun float_le :: "pyfloat \<Rightarrow> pyfloat \<Rightarrow> bool" where
  "float_le NaN _ = False"
| "float_le _ NaN = False"
| "float_le a b = (a = b \<or> float_lt a b)"

text \<open>
  \<^verbatim>\<open>round(x, 2)\<close> on a float: CPython rounds the exact value of \<open>x\<close> to two decimals, ties to
  even, and converts that decimal back to the nearest double. Infinities and NaN round to
  themselves.
\<close>

definition float_round2 :: "pyfloat \<Rightarrow> py_error + pyfloat" where
  "float_round2 x = (case x of
       Finite a \<Rightarrow>
         (case to_double (of_int (round_half_even (a * 100)) / 100) of
            Finite y \<Rightarrow> Inr (Finite y)
          | _ \<Rightarrow> Inl OverflowError)
     | _ \<Rightarrow> Inr x)"


subsection \<open>Dynamically typed values\<close>

text \<open>
  The values the program handles: \<^verbatim>\<open>None\<close>, bools, ints, floats, strings, the lists of
  strings that \<^verbatim>\<open>csv.DictReader\<close> stores for surplus cells, and \<^verbatim>\<open>datetime.date\<close> objects
  (a \<^verbatim>\<open>join_date\<close> is a string or a date). Strings are sequences of characters with code
  points below 256; the digits and spaces beyond that range that \<^verbatim>\<open>int()\<close> and \<^verbatim>\<open>float()\<close>
  accept, the interpreter's limit on the length of int conversions and memory exhaustion are
  outside the model.
\<close>

datatype pyval =
    VNone
  | VBool bool
  | VInt int
  | VFloat pyfloat
  | VStr string
  | VList "string list"
  | VDate int int int

definition ebind :: "'e + 'a \<Rightarrow> ('a \<Rightarrow> 'e + 'b) \<Rightarrow> 'e + 'b" where
  "ebind m f = (case m of Inl e \<Rightarrow> Inl e | Inr x \<Rightarrow> f x)"

datatype num = NInt int | NFloat pyfloat

text \<open>A bool is an int in arithmetic (\<^verbatim>\<open>bool\<close> is a subclass of \<^verbatim>\<open>int\<close>).\<close>

fun as_num :: "pyval \<Rightarrow> num option" where
  "as_num (VBool b) = Some (NInt (if b then 1 else 0))"
| "as_num (VInt n) = Some (NInt n)"
| "as_num (VFloat f) = Some (NFloat f)"
| "as_num _ = None"

fun num_to_float :: "num \<Rightarrow> py_error + pyfloat" where
  "num_to_float (NInt n) = int_to_float n"
| "num_to_float (NFloat f) = Inr f"

fun num_mul :: "num \<Rightarrow> num \<Rightarrow> py_error + pyval" where
  "num_mul (NInt a) (NInt b) = Inr (VInt (a * b))"
| "num_mul x y =
     ebind (num_to_float x) (\<lambda>a. ebind (num_to_float y) (\<lambda>b. Inr (VFloat (float_mul a b))))"

fun num_add :: "num \<Rightarrow> num \<Rightarrow> py_error + pyval" where
  "num_add (NInt a) (NInt b) = Inr (VInt (a + b))"
| "num_add x y =
     ebind (num_to_float x) (\<lambda>a. ebind (num_to_float y) (\<lambda>b. Inr (VFloat (float_add a b))))"

text \<open>Sequence repetition, \<^verbatim>\<open>s * n\<close>: a count that does not fit a machine index raises.\<close>

fun seq_repeat :: "pyval \<Rightarrow> int \<Rightarrow> py_error + pyval" where
  "seq_repeat (VStr s) n =
     (if 2 ^ 63 \<le> n \<or> n < - (2 ^ 63) then Inl OverflowError
      else Inr (VStr (concat (replicate (nat n) s))))"
| "seq_repeat (VList xs) n =
     (if 2 ^ 63 \<le> n \<or> n < - (2 ^ 63) then Inl OverflowError
      else Inr (VList (concat (replicate (nat n) xs))))"
| "seq_repeat _ n = Inl TypeError"

definition py_mul :: "pyval \<Rightarrow> pyval \<Rightarrow> py_error + pyval" where
  "py_mul a b = (case (as_num a, as_num b) of
       (Some x, Some y) \<Rightarrow> num_mul x y
     | (None, Some (NInt n)) \<Rightarrow> seq_repeat a n
     | (Some (NInt n), None) \<Rightarrow> seq_repeat b n
     | _ \<Rightarrow> Inl TypeError)"

definition py_add :: "pyval \<Rightarrow> pyval \<Rightarrow> py_error + pyval" where
  "py_add a b = (case (as_num a, as_num b) of
       (Some x, Some y) \<Rightarrow> num_add x y
     | _ \<Rightarrow> (case (a, b) of
          (VStr s, VStr t) \<Rightarrow> Inr (VStr (s @ t))
        | (VList xs, VList ys) \<Rightarrow> Inr (VList (xs @ ys))
        | _ \<Rightarrow> Inl TypeError))"

text \<open>\<^verbatim>\<open>round(x, 2)\<close>: an int rounds to itself, a float as above, anything else raises.\<close>

definition py_round2 :: "pyval \<Rightarrow> py_error + pyval" where
  "py_round2 v = (case as_num v of
       Some (NInt n) \<Rightarrow> Inr (VInt n)
     | Some (NFloat f) \<Rightarrow> ebind (float_round2 f) (\<lambda>r. Inr (VFloat r))
     | None \<Rightarrow> Inl TypeError)"

text \<open>\<^verbatim>\<open>x >= n\<close> for an int literal \<open>n\<close>: ints and floats compare by exact value.\<close>

definition py_ge_int :: "pyval \<Rightarrow> int \<Rightarrow> py_error + bool" where
  "py_ge_int v n = (case as_num v of
       Some (NInt a) \<Rightarrow> Inr (n \<le> a)
     | Some (NFloat f) \<Rightarrow> Inr (float_le (Finite (of_int n)) f)
     | None \<Rightarrow> Inl TypeError)"

text \<open>\<^verbatim>\<open>min(a, b)\<close> on floats returns \<open>a\<close> unless \<open>b < a\<close>.\<close>

definition float_min :: "pyfloat \<Rightarrow> pyfloat \<Rightarrow> pyfloat" where
  "float_min a b = (if float_lt b a then b else a)"

fun truthy :: "pyval \<Rightarrow> bool" where
  "truthy VNone = False"
| "truthy (VBool b) = b"
| "truthy (VInt n) = (n \<noteq> 0)"
| "truthy (VFloat f) = (f \<noteq> Finite 0)"
| "truthy (VStr s) = (s \<noteq> [])"
| "truthy (VList xs) = (xs \<noteq> [])"
| "truthy (VDate y m d) = True"

text \<open>The numeric value of a result, for stating what a salary is.\<close>

fun num_value :: "pyval \<Rightarrow> rat option" where
  "num_value (VBool b) = Some (if b then 1 else 0)"
| "num_value (VInt n) = Some (of_int n)"
| "num_value (VFloat (Finite a)) = Some a"
| "num_value _ = None"


subsection \<open>Strings to numbers\<close>

text \<open>
  \<^verbatim>\<open>int(s)\<close> and \<^verbatim>\<open>float(s)\<close> strip whitespace (the ASCII blanks, and the next-line and
  no-break-space characters \<open>0x85\<close> and \<open>0xA0\<close>), take an optional sign, and allow
  single underscores between digits. \<^verbatim>\<open>float\<close> also reads a fraction, an exponent and the
  words \<^verbatim>\<open>inf\<close>, \<^verbatim>\<open>infinity\<close>, \<^verbatim>\<open>nan\<close> in any case; its result is the double nearest to
  the decimal, infinite when that is too large. \<open>None\<close> is Python's \<^verbatim>\<open>ValueError\<close>.
\<close>

definition is_space :: "char \<Rightarrow> bool" where
  "is_space c = (c = CHR '' '' \<or> (9 \<le> (of_char c :: nat) \<and> (of_char c :: nat) \<le> 13)
                 \<or> c = CHR 0x85 \<or> c = CHR 0xA0)"

definition is_digit :: "char \<Rightarrow> bool" where
  "is_digit c = (48 \<le> (of_char c :: nat) \<and> (of_char c :: nat) \<le> 57)"

definition digit_val :: "char \<Rightarrow> nat" where
  "digit_val c = of_char c - 48"

definition py_strip :: "string \<Rightarrow> string" where
  "py_strip s = rev (dropWhile is_space (rev (dropWhile is_space s)))"

definition digits_to_nat :: "string \<Rightarrow> nat" where
  "digits_to_nat ds = foldl (\<lambda>a c. 10 * a + digit_val c) 0 ds"

text \<open>An underscore is legal only with a digit on each side; \<open>p\<close> is the previous character.\<close>

fun underscores_ok :: "char option \<Rightarrow> string \<Rightarrow> bool" where
  "underscores_ok p [] = True"
| "underscores_ok p (c # cs) =
     (if c = CHR ''_''
      then (case p of Some d \<Rightarrow> is_digit d | None \<Rightarrow> False)
           \<and> (case cs of [] \<Rightarrow> False | n # _ \<Rightarrow> is_digit n)
           \<and> underscores_ok (Some c) cs
      else underscores_ok (Some c) cs)"

definition drop_underscores :: "string \<Rightarrow> string option" where
  "drop_underscores s =
     (if underscores_ok None s then Some (filter (\<lambda>c. c \<noteq> CHR ''_'') s) else None)"

definition split_sign :: "string \<Rightarrow> bool \<times> string" where
  "split_sign s = (case s of
       c # cs \<Rightarrow> if c = CHR ''-'' then (True, cs) else if c = CHR ''+'' then (False, cs)
                 else (False, s)
     | [] \<Rightarrow> (False, s))"

definition parse_int :: "string \<Rightarrow> int option" where
  "parse_int s = (case drop_underscores (snd (split_sign (py_strip s))) of
       None \<Rightarrow> None
     | Some ds \<Rightarrow>
         if ds \<noteq> [] \<and> list_all is_digit ds
         then Some (if fst (split_sign (py_strip s)) then - int (digits_to_nat ds)
                    else int (digits_to_nat ds))
         else None)"

definition lower_char :: "char \<Rightarrow> char" where
  "lower_char c = (if 65 \<le> (of_char c :: nat) \<and> (of_char c :: nat) \<le> 90
                   then char_of ((of_char c :: nat) + 32) else c)"

text \<open>The exponent part: \<^verbatim>\<open>e\<close> or \<^verbatim>\<open>E\<close>, an optional sign, at least one digit.\<close>

definition parse_exponent :: "string \<Rightarrow> int option" where
  "parse_exponent s = (case s of
       [] \<Rightarrow> Some 0
     | c # cs \<Rightarrow>
         if c = CHR ''e'' \<or> c = CHR ''E''
         then (let (neg, ds) = split_sign cs
               in if ds \<noteq> [] \<and> list_all is_digit ds
                  then Some (if neg then - int (digits_to_nat ds) else int (digits_to_nat ds))
                  else None)
         else None)"

text \<open>The decimal \<open>ip.fp\<close> followed by an exponent part, as an exact rational.\<close>

definition parse_decimal :: "string \<Rightarrow> rat option" where
  "parse_decimal s =
     (let ip = takeWhile is_digit s; r = dropWhile is_digit s;
          fp = (case r of c # cs \<Rightarrow> if c = CHR ''.'' then takeWhile is_digit cs else [] | [] \<Rightarrow> []);
          r' = (case r of c # cs \<Rightarrow> if c = CHR ''.'' then dropWhile is_digit cs else r | [] \<Rightarrow> [])
      in if ip = [] \<and> fp = [] then None
         else (case parse_exponent r' of
                 None \<Rightarrow> None
               | Some e \<Rightarrow>
                   Some (of_nat (digits_to_nat (ip @ fp)) * 10 powi (e - int (length fp)))))"

definition parse_float :: "string \<Rightarrow> pyfloat option" where
  "parse_float s = (case drop_underscores (py_strip s) of
       None \<Rightarrow> None
     | Some t \<Rightarrow>
         (let (neg, body) = split_sign t; w = map lower_char body
          in if w = ''inf'' \<or> w = ''infinity'' then Some (if neg then NegInf else PosInf)
             else if w = ''nan'' then Some NaN
             else (case parse_decimal body of
                     None \<Rightarrow> None
                   | Some q \<Rightarrow> Some (to_double (if neg then - q else q)))))"

text \<open>\<^verbatim>\<open>float(v)\<close> and \<^verbatim>\<open>int(v)\<close> on a value.\<close>

fun py_float :: "pyval \<Rightarrow> py_error + pyfloat" where
  "py_float (VFloat f) = Inr f"
| "py_float (VInt n) = int_to_float n"
| "py_float (VBool b) = Inr (Finite (if b then 1 else 0))"
| "py_float (VStr s) = (case parse_float s of None \<Rightarrow> Inl ValueError | Some f \<Rightarrow> Inr f)"
| "py_float _ = Inl TypeError"

fun py_int :: "pyval \<Rightarrow> py_error + int" where
  "py_int (VInt n) = Inr n"
| "py_int (VBool b) = Inr (if b then 1 else 0)"
| "py_int (VFloat (Finite a)) = Inr (if 0 \<le> a then \<lfloor>a\<rfloor> else \<lceil>a\<rceil>)"
| "py_int (VFloat NaN) = Inl ValueError"
| "py_int (VFloat _) = Inl OverflowError"
| "py_int (VStr s) = (case parse_int s of None \<Rightarrow> Inl ValueError | Some n \<Rightarrow> Inr n)"
| "py_int _ = Inl TypeError"


section \<open>Employee records\<close>

text \<open>
  An employee object is its class and its \<^verbatim>\<open>data\<close> dictionary. The dictionary is an
  association list in insertion order; a key is a string, or \<^verbatim>\<open>None\<close> for the entry under
  which \<^verbatim>\<open>csv.DictReader\<close> files surplus cells.
\<close>

datatype variant = Employee | FullTime | PartTime | Intern

type_synonym pydict = "(string option \<times> pyval) list"

record employee =
  cls :: variant
  data :: pydict

definition dict_get :: "pydict \<Rightarrow> string \<Rightarrow> pyval option" where
  "dict_get d k = map_of d (Some k)"

definition dict_set :: "pydict \<Rightarrow> string option \<Rightarrow> pyval \<Rightarrow> pydict" where
  "dict_set d k v = AList.update k v d"

text \<open>\<^verbatim>\<open>d[k]\<close> raises \<^verbatim>\<open>KeyError\<close> on a missing key.\<close>

definition dict_item :: "pydict \<Rightarrow> string \<Rightarrow> py_error + pyval" where
  "dict_item d k = (case dict_get d k of None \<Rightarrow> Inl KeyError | Some v \<Rightarrow> Inr v)"

text \<open>\<^verbatim>\<open>d.update({...})\<close> with the pairs in the order of the literal.\<close>

definition dict_update :: "pydict \<Rightarrow> (string \<times> pyval) list \<Rightarrow> pydict" where
  "dict_update d kvs = foldl (\<lambda>acc (k, v). dict_set acc (Some k) v) d kvs"

definition Employee_init :: "variant \<Rightarrow> pyval \<Rightarrow> pyval \<Rightarrow> pyval \<Rightarrow> pyval \<Rightarrow> employee" where
  "Employee_init c emp_id name join_date role =
     \<lparr>cls = c,
      data = [(Some ''emp_id'', emp_id), (Some ''name'', name),
              (Some ''join_date'', join_date), (Some ''role'', role)]\<rparr>"

definition FullTime_init :: "pyval \<Rightarrow> pyval \<Rightarrow> pyval \<Rightarrow> pyval \<Rightarrow> pyval \<Rightarrow> employee" where
  "FullTime_init emp_id name join_date monthly_salary role =
     (let self = Employee_init FullTime emp_id name join_date role
      in self\<lparr>data := dict_update (data self)
           [(''monthly_salary'', monthly_salary),
            (''bonus_percent'', VFloat (float_lit (5 / 100)))]\<rparr>)"

definition PartTime_init :: "pyval \<Rightarrow> pyval \<Rightarrow> pyval \<Rightarrow> pyval \<Rightarrow> pyval \<Rightarrow> employee" where
  "PartTime_init emp_id name join_date hourly_rate role =
     (let self = Employee_init PartTime emp_id name join_date role
      in self\<lparr>data := dict_update (data self)
           [(''hourly_rate'', hourly_rate), (''monthly_hours'', VInt 0)]\<rparr>)"

definition Intern_init :: "pyval \<Rightarrow> pyval \<Rightarrow> pyval \<Rightarrow> pyval \<Rightarrow> pyval \<Rightarrow> employee" where
  "Intern_init emp_id name join_date stipend role =
     (let self = Employee_init Intern emp_id name join_date role
      in self\<lparr>data := dict_update (data self)
           [(''stipend'', stipend), (''completed'', VBool False)]\<rparr>)"

definition to_dict :: "employee \<Rightarrow> pydict" where
  "to_dict self = data self"

subsection \<open>Years of service\<close>

fun split_on :: "char \<Rightarrow> string \<Rightarrow> string list" where
  "split_on c [] = [[]]"
| "split_on c (x # xs) =
     (if x = c then [] # split_on c xs
      else (case split_on c xs of p # ps \<Rightarrow> (x # p) # ps | [] \<Rightarrow> [[x]]))"

definition is_leap :: "int \<Rightarrow> bool" where
  "is_leap y = (y mod 4 = 0 \<and> (y mod 100 \<noteq> 0 \<or> y mod 400 = 0))"

definition days_in_month :: "int \<Rightarrow> int \<Rightarrow> int" where
  "days_in_month y m =
     (if m = 2 then (if is_leap y then 29 else 28)
      else if m = 4 \<or> m = 6 \<or> m = 9 \<or> m = 11 then 30 else 31)"

text \<open>\<^verbatim>\<open>date(y, m, d)\<close> raises \<^verbatim>\<open>ValueError\<close> outside the calendar.\<close>

definition make_date :: "int \<Rightarrow> int \<Rightarrow> int \<Rightarrow> py_error + (int \<times> int \<times> int)" where
  "make_date y m d =
     (if 1 \<le> y \<and> y \<le> 9999 \<and> 1 \<le> m \<and> m \<le> 12 \<and> 1 \<le> d \<and> d \<le> days_in_month y m
      then Inr (y, m, d) else Inl ValueError)"

text \<open>
  \<open>today\<close> is what \<^verbatim>\<open>date.today()\<close> returns. A string \<^verbatim>\<open>join_date\<close> must split at its
  hyphens into exactly three parts; a value that is neither a string nor a date has no
  \<^verbatim>\<open>year\<close> attribute.
\<close>

definition years_of_service :: "int \<times> int \<times> int \<Rightarrow> employee \<Rightarrow> py_error + int" where
  "years_of_service today self =
     ebind (dict_item (data self) ''join_date'') (\<lambda>jd.
     ebind (case jd of
              VStr s \<Rightarrow>
                (case split_on CHR ''-'' s of
                   [y, m, d] \<Rightarrow>
                     ebind (py_int (VStr y)) (\<lambda>yi.
                     ebind (py_int (VStr m)) (\<lambda>mi.
                     ebind (py_int (VStr d)) (\<lambda>di. make_date yi mi di)))
                 | _ \<Rightarrow> Inl ValueError)
            | VDate y m d \<Rightarrow> Inr (y, m, d)
            | _ \<Rightarrow> Inl AttributeError) (\<lambda>(jy, jm, jd).
     (case today of (ty, tm, td) \<Rightarrow>
        Inr (ty - jy - (if tm < jm \<or> (tm = jm \<and> td < jd) then 1 else 0)))))"

subsection \<open>Salary rules\<close>

definition Employee_calculate_salary :: "employee \<Rightarrow> py_error + pyval" where
  "Employee_calculate_salary self = Inl NotImplementedError"

text \<open>\<^verbatim>\<open>extra = min((years // 3) * 0.01, 0.05)\<close>\<close>

definition bonus_extra :: "int \<Rightarrow> py_error + pyfloat" where
  "bonus_extra years =
     ebind (int_to_float (years div 3)) (\<lambda>k.
       Inr (float_min (float_mul k (float_lit (1 / 100))) (float_lit (5 / 100))))"

definition FullTime_calculate_salary ::
    "int \<times> int \<times> int \<Rightarrow> employee \<Rightarrow> pyval \<Rightarrow> bool \<Rightarrow> py_error + pyval" where
  "FullTime_calculate_salary today self months apply_bonus =
     ebind (dict_item (data self) ''monthly_salary'') (\<lambda>ms.
     ebind (py_mul ms months) (\<lambda>base.
       if apply_bonus then
         ebind (years_of_service today self) (\<lambda>years.
         ebind (bonus_extra years) (\<lambda>extra.
         ebind (dict_item (data self) ''bonus_percent'') (\<lambda>bp.
         ebind (py_add bp (VFloat extra)) (\<lambda>bonus_rate.
         ebind (py_mul base bonus_rate) (\<lambda>bonus_amount.
         ebind (py_add base bonus_amount) py_round2)))))
       else py_round2 base))"

text \<open>
  The part-time rule stores the hours in the record before it rounds, so the result is the
  record after the call together with the value or the exception.
\<close>

definition PartTime_calculate_salary ::
    "employee \<Rightarrow> pyval \<Rightarrow> bool \<Rightarrow> employee \<times> (py_error + pyval)" where
  "PartTime_calculate_salary self hours_worked apply_bonus =
     (case ebind (dict_item (data self) ''hourly_rate'') (\<lambda>r. py_mul r hours_worked) of
        Inl e \<Rightarrow> (self, Inl e)
      | Inr base \<Rightarrow>
          (case (if apply_bonus then py_ge_int hours_worked 80 else Inr False) of
             Inl e \<Rightarrow> (self, Inl e)
           | Inr c \<Rightarrow>
               (case (if c then py_mul base (VFloat (float_lit (2 / 100))) else Inr (VInt 0)) of
                  Inl e \<Rightarrow> (self, Inl e)
                | Inr bonus_amount \<Rightarrow>
                    (self\<lparr>data := dict_set (data self) (Some ''monthly_hours'') hours_worked\<rparr>,
                     ebind (py_add base bonus_amount) py_round2))))"

definition Intern_calculate_salary :: "employee \<Rightarrow> bool \<Rightarrow> py_error + pyval" where
  "Intern_calculate_salary self apply_completion_allowance =
     ebind (dict_item (data self) ''stipend'') (\<lambda>base.
     ebind (if apply_completion_allowance
               \<and> truthy (case dict_get (data self) ''completed'' of
                           None \<Rightarrow> VBool False | Some v \<Rightarrow> v)
            then py_mul (VFloat (float_lit (10 / 100))) base
            else Inr (VInt 0)) (\<lambda>allowance.
     ebind (py_add base allowance) py_round2))"

section \<open>Text of a value\<close>

text \<open>
  \<^verbatim>\<open>csv.writer\<close> writes \<^verbatim>\<open>None\<close> as the empty cell, a string as it is, and \<^verbatim>\<open>str(v)\<close> for
  anything else. For a float that is its \<^verbatim>\<open>repr\<close>: the shortest decimal that reads back as
  the same double, in positional notation when the decimal point falls within
  \<^verbatim>\<open>0.0001 <= |x| < 1e16\<close> and in exponent notation otherwise.
\<close>

definition digit_char :: "nat \<Rightarrow> char" where
  "digit_char n = ''0123456789'' ! n"

fun nat_digits :: "nat \<Rightarrow> string" where
  "nat_digits n = (if n < 10 then [digit_char n]
                   else nat_digits (n div 10) @ [digit_char (n mod 10)])"

definition int_str :: "int \<Rightarrow> string" where
  "int_str n = (if n < 0 then CHR ''-'' # nat_digits (nat (- n)) else nat_digits (nat n))"

text \<open>\<open>ilog10 x\<close> is the exponent \<open>k\<close> with \<open>10^k \<le> |x| < 10^(k+1)\<close>, for \<open>x \<noteq> 0\<close>.\<close>

definition ilog10 :: "rat \<Rightarrow> int" where
  "ilog10 x = (let (p, q) = quotient_of \<bar>x\<bar>;
                   d = int (floorlog 10 (nat p)) - int (floorlog 10 (nat q))
               in if 10 powi d \<le> \<bar>x\<bar> then d else d - 1)"

text \<open>
  The decimals with \<open>n\<close> significant digits next to \<open>x > 0\<close>, below and above, as a digit
  number and a power of ten; the one that reads back as \<open>x\<close> is taken, the nearer one if
  both do, the one with an even last digit on a tie.
\<close>

definition digits_try :: "rat \<Rightarrow> nat \<Rightarrow> (int \<times> int) option" where
  "digits_try x n =
     (let e = ilog10 x - int n + 1; s = 10 powi e;
          lo = \<lfloor>x / s\<rfloor>; hi = lo + 1;
          ok_lo = (to_double (of_int lo * s) = Finite x);
          ok_hi = (to_double (of_int hi * s) = Finite x);
          dl = x - of_int lo * s; dh = of_int hi * s - x
      in if ok_lo \<and> ok_hi
         then (if dl < dh \<or> (dl = dh \<and> even lo) then Some (lo, e) else Some (hi, e))
         else if ok_lo then Some (lo, e)
         else if ok_hi then Some (hi, e)
         else None)"

fun shortest_digits :: "rat \<Rightarrow> nat \<Rightarrow> nat \<Rightarrow> int \<times> int" where
  "shortest_digits x n 0 =
     (round_half_even (x / 10 powi (ilog10 x - int n + 1)), ilog10 x - int n + 1)"
| "shortest_digits x n (Suc fuel) =
     (case digits_try x n of
        Some r \<Rightarrow> r
      | None \<Rightarrow> shortest_digits x (Suc n) fuel)"

text \<open>Trailing zeros of the digit number move into the exponent.\<close>

function strip_zeros :: "int \<Rightarrow> int \<Rightarrow> int \<times> int" where
  "strip_zeros m e = (if m \<noteq> 0 \<and> m mod 10 = 0 then strip_zeros (m div 10) (e + 1) else (m, e))"
  by pat_completeness auto
termination
  by (relation "measure (\<lambda>(m, e). nat \<bar>m\<bar>)") auto

definition exp_str :: "int \<Rightarrow> string" where
  "exp_str e = (if e < 0 then ''-'' else ''+'')
               @ (if \<bar>e\<bar> < 10 then ''0'' else [])
               @ nat_digits (nat \<bar>e\<bar>)"

text \<open>
  The digits \<open>ds\<close> with the decimal point after the first \<open>decpt\<close> of them
  (\<open>decpt \<le> 0\<close>: zeros first).
\<close>

definition format_repr :: "string \<Rightarrow> int \<Rightarrow> string" where
  "format_repr ds decpt =
     (let n = int (length ds)
      in if - 4 < decpt \<and> decpt \<le> 16
         then (if decpt \<le> 0 then ''0.'' @ replicate (nat (- decpt)) CHR ''0'' @ ds
               else if decpt < n then take (nat decpt) ds @ ''.'' @ drop (nat decpt) ds
               else ds @ replicate (nat (decpt - n)) CHR ''0'' @ ''.0'')
         else take 1 ds @ (if 1 < n then ''.'' @ drop 1 ds else [])
              @ ''e'' @ exp_str (decpt - 1))"

definition float_repr :: "pyfloat \<Rightarrow> string" where
  "float_repr f = (case f of
       NaN \<Rightarrow> ''nan''
     | PosInf \<Rightarrow> ''inf''
     | NegInf \<Rightarrow> ''-inf''
     | Finite x \<Rightarrow>
         if x = 0 then ''0.0''
         else (let (m, e) = shortest_digits \<bar>x\<bar> 1 16;
                   (m', e') = strip_zeros m e;
                   ds = nat_digits (nat m')
               in (if x < 0 then ''-'' else []) @ format_repr ds (int (length ds) + e')))"

text \<open>
  \<^verbatim>\<open>repr\<close> of a string, as it appears inside the \<^verbatim>\<open>str\<close> of a list: the characters that are
  not printable (the controls, \<open>0x7F\<close> to \<open>0xA0\<close> and the soft hyphen \<open>0xAD\<close>) are escaped.
\<close>

definition hex_digit :: "nat \<Rightarrow> char" where
  "hex_digit n = ''0123456789abcdef'' ! n"

definition repr_char :: "char \<Rightarrow> char \<Rightarrow> string" where
  "repr_char q c =
     (if c = q \<or> c = CHR 0x5C then [CHR 0x5C, c]
      else if c = CHR 0x09 then [CHR 0x5C, CHR ''t'']
      else if c = CHR 0x0A then [CHR 0x5C, CHR ''n'']
      else if c = CHR 0x0D then [CHR 0x5C, CHR ''r'']
      else if (of_char c :: nat) < 32
              \<or> (127 \<le> (of_char c :: nat) \<and> (of_char c :: nat) \<le> 160)
              \<or> (of_char c :: nat) = 173
        then [CHR 0x5C, CHR ''x'', hex_digit ((of_char c :: nat) div 16),
              hex_digit ((of_char c :: nat) mod 16)]
      else [c])"

definition str_repr :: "string \<Rightarrow> string" where
  "str_repr s =
     (let q = (if CHR 0x27 \<in> set s \<and> CHR 0x22 \<notin> set s then CHR 0x22 else CHR 0x27)
      in q # concat (map (repr_char q) s) @ [q])"

fun join_comma :: "string list \<Rightarrow> string" where
  "join_comma [] = []"
| "join_comma [x] = x"
| "join_comma (x # y # ys) = x @ '', '' @ join_comma (y # ys)"

definition pad2 :: "int \<Rightarrow> string" where
  "pad2 n = (if n < 10 then ''0'' else []) @ nat_digits (nat n)"

definition pad4 :: "int \<Rightarrow> string" where
  "pad4 n = replicate (4 - length (nat_digits (nat n))) CHR ''0'' @ nat_digits (nat n)"

fun csv_cell :: "pyval \<Rightarrow> string" where
  "csv_cell VNone = []"
| "csv_cell (VBool b) = (if b then ''True'' else ''False'')"
| "csv_cell (VInt n) = int_str n"
| "csv_cell (VFloat f) = float_repr f"
| "csv_cell (VStr s) = s"
| "csv_cell (VList xs) = ''['' @ join_comma (map str_repr xs) @ '']''"
| "csv_cell (VDate y m d) = pad4 y @ ''-'' @ pad2 m @ ''-'' @ pad2 d"

section \<open>The registry and its file\<close>

text \<open>
  \<^verbatim>\<open>HRSystem.employees\<close> is a dictionary from \<^verbatim>\<open>emp_id\<close> to employee object, in insertion
  order. Keys are compared structurally, which is Python's key equality for the strings
  (and \<^verbatim>\<open>None\<close>) that the data model and the loader use as ids. A list is unhashable and
  cannot be a key.
\<close>

type_synonym registry = "(pyval \<times> employee) list"

record hrsystem =
  employees :: registry
  storage_file :: string

fun hashable :: "pyval \<Rightarrow> bool" where
  "hashable (VList xs) = False"
| "hashable _ = True"

definition add_employee :: "hrsystem \<Rightarrow> employee \<Rightarrow> py_error + hrsystem" where
  "add_employee self employee_obj =
     ebind (dict_item (data employee_obj) ''emp_id'') (\<lambda>emp_id.
       if hashable emp_id
       then Inr (self\<lparr>employees := AList.update emp_id employee_obj (employees self)\<rparr>)
       else Inl TypeError)"

definition remove_employee :: "hrsystem \<Rightarrow> pyval \<Rightarrow> py_error + hrsystem" where
  "remove_employee self emp_id =
     (if \<not> hashable emp_id then Inl TypeError
      else if emp_id \<in> fst ` set (employees self)
      then Inr (self\<lparr>employees := AList.delete emp_id (employees self)\<rparr>)
      else Inr self)"

definition get_employee :: "hrsystem \<Rightarrow> pyval \<Rightarrow> py_error + employee option" where
  "get_employee self emp_id =
     (if hashable emp_id then Inr (map_of (employees self) emp_id) else Inl TypeError)"

definition list_employees :: "hrsystem \<Rightarrow> pydict list" where
  "list_employees self = map (\<lambda>(k, emp). to_dict emp) (employees self)"

subsection \<open>The storage file\<close>

text \<open>
  A file is seen through \<^verbatim>\<open>csv.reader\<close>: the rows of cells it holds, and the exception
  that ends the reading, if any (an unreadable file, undecodable bytes, a CSV error).
  The file system maps a path to the file there. Opening a file for writing always
  succeeds in the model.
\<close>

datatype csv_file = CsvFile (file_rows: "string list list") (file_error: "py_error option")

type_synonym filesystem = "string \<Rightarrow> csv_file option"

text \<open>
  The loader opens the file without \<^verbatim>\<open>newline=''\<close>, so a carriage return inside a quoted
  cell reaches \<^verbatim>\<open>csv.reader\<close> as a line feed.
\<close>

fun nl_translate :: "string \<Rightarrow> string" where
  "nl_translate [] = []"
| "nl_translate [c] = [if c = CHR 0x0D then CHR 0x0A else c]"
| "nl_translate (c # d # ds) =
     (if c = CHR 0x0D \<and> d = CHR 0x0A then CHR 0x0A # nl_translate ds
      else if c = CHR 0x0D then CHR 0x0A # nl_translate (d # ds)
      else c # nl_translate (d # ds))"

text \<open>
  \<^verbatim>\<open>csv.DictReader\<close>: the first row names the columns; every later row that is not blank
  becomes a dictionary, a short row padded with \<^verbatim>\<open>None\<close>, the surplus cells of a long row
  filed as a list under the key \<^verbatim>\<open>None\<close>.
\<close>

definition row_dict :: "string list \<Rightarrow> string list \<Rightarrow> pydict" where
  "row_dict fieldnames row =
     (let d = foldl (\<lambda>acc (k, v). dict_set acc (Some k) (VStr v)) [] (zip fieldnames row)
      in if length fieldnames < length row
         then dict_set d None (VList (drop (length fieldnames) row))
         else foldl (\<lambda>acc k. dict_set acc (Some k) VNone) d (drop (length row) fieldnames))"

definition DictReader :: "string list list \<Rightarrow> pydict list" where
  "DictReader rows = (case rows of
       [] \<Rightarrow> []
     | fieldnames # rest \<Rightarrow> map (row_dict fieldnames) (filter (\<lambda>r. r \<noteq> []) rest))"

subsection \<open>Saving\<close>

text \<open>
  \<^verbatim>\<open>sorted(all_keys)\<close> compares the keys; \<^verbatim>\<open>None\<close> does not compare with a string.
\<close>

definition sorted_keys :: "string option list \<Rightarrow> py_error + string option list" where
  "sorted_keys ks =
     (if None \<in> set ks
      then (if set ks = {None} then Inr [None] else Inl TypeError)
      else Inr (map Some (sort (remdups (map the ks)))))"

definition header_cell :: "string option \<Rightarrow> string" where
  "header_cell k = (case k of None \<Rightarrow> [] | Some s \<Rightarrow> s)"

definition row_cells :: "string option list \<Rightarrow> pydict \<Rightarrow> string list" where
  "row_cells fieldnames r =
     map (\<lambda>k. case map_of r k of None \<Rightarrow> [] | Some v \<Rightarrow> csv_cell v) fieldnames"

definition save_to_file :: "filesystem \<Rightarrow> hrsystem \<Rightarrow> py_error + filesystem" where
  "save_to_file fs self =
     (if employees self = [] then Inr fs
      else (let rows = map (\<lambda>(k, emp). to_dict emp) (employees self)
            in ebind (sorted_keys (concat (map (map fst) rows))) (\<lambda>all_keys.
                 Inr (fs(storage_file self \<mapsto>
                   CsvFile (map header_cell all_keys # map (row_cells all_keys) rows) None)))))"

subsection \<open>Loading\<close>

definition row_get :: "pydict \<Rightarrow> string \<Rightarrow> pyval \<Rightarrow> pyval" where
  "row_get row k dflt = (case dict_get row k of None \<Rightarrow> dflt | Some v \<Rightarrow> v)"

text \<open>\<^verbatim>\<open>x or 0\<close>\<close>

definition or_zero :: "pyval \<Rightarrow> pyval" where
  "or_zero v = (if truthy v then v else VInt 0)"

text \<open>\<^verbatim>\<open>'.' in v\<close>: a substring of a string, an element of a list.\<close>

fun contains_dot :: "pyval \<Rightarrow> py_error + bool" where
  "contains_dot (VStr s) = Inr (CHR ''.'' \<in> set s)"
| "contains_dot (VList xs) = Inr (''.'' \<in> set xs)"
| "contains_dot _ = Inl TypeError"

text \<open>The numeric coercion of a cell; any exception leaves the raw value.\<close>

definition coerce :: "pyval \<Rightarrow> pyval" where
  "coerce v =
     (case ebind (contains_dot v) (\<lambda>dot.
             if dot then ebind (py_float v) (\<lambda>num. Inr (VFloat num))
             else ebind (py_int v) (\<lambda>num. Inr (VInt num))) of
        Inl e \<Rightarrow> v
      | Inr num \<Rightarrow> num)"

text \<open>One round of \<^verbatim>\<open>for k, v in row.items()\<close>.\<close>

definition extra_field :: "employee \<Rightarrow> string option \<times> pyval \<Rightarrow> employee" where
  "extra_field emp kv = (case kv of (k, v) \<Rightarrow>
     if k \<in> {Some ''emp_id'', Some ''name'', Some ''join_date'', Some ''role''} then emp
     else if v = VNone \<or> v = VStr [] then emp
     else emp\<lparr>data := dict_set (data emp) k (coerce v)\<rparr>)"

text \<open>The body of \<^verbatim>\<open>for row in reader\<close>, up to the record and its key.\<close>

definition load_row :: "pydict \<Rightarrow> py_error + (pyval \<times> employee)" where
  "load_row row =
     (let role = row_get row ''role'' (VStr []);
          emp_id = row_get row ''emp_id'' VNone;
          name = row_get row ''name'' VNone;
          join_date = row_get row ''join_date'' VNone
      in ebind
           (if role = VStr ''Full-Time'' then
              ebind (py_float (or_zero (row_get row ''monthly_salary'' (VInt 0))))
                (\<lambda>monthly_salary.
                   Inr (FullTime_init emp_id name join_date (VFloat monthly_salary)
                          (VStr ''Full-Time'')))
            else if role = VStr ''Part-Time'' then
              ebind (py_float (or_zero (row_get row ''hourly_rate'' (VInt 0)))) (\<lambda>hourly.
                let emp = PartTime_init emp_id name join_date (VFloat hourly) (VStr ''Part-Time'');
                    mh = row_get row ''monthly_hours'' VNone
                in if truthy mh
                   then ebind (py_float mh) (\<lambda>h.
                          Inr (emp\<lparr>data := dict_set (data emp) (Some ''monthly_hours'')
                                               (VFloat h)\<rparr>))
                   else Inr emp)
            else if role = VStr ''Intern'' then
              ebind (py_float (or_zero (row_get row ''stipend'' (VInt 0)))) (\<lambda>stipend.
                let emp = Intern_init emp_id name join_date (VFloat stipend) (VStr ''Intern'')
                in if row_get row ''completed'' VNone
                        \<in> {VStr ''True'', VStr ''true'', VStr ''1''}
                   then Inr (emp\<lparr>data := dict_set (data emp) (Some ''completed'')
                                               (VBool True)\<rparr>)
                   else Inr emp)
            else Inr (Employee_init Employee emp_id name join_date role))
           (\<lambda>emp. Inr (emp_id, foldl extra_field emp row)))"

fun load_rows :: "registry \<Rightarrow> pydict list \<Rightarrow> py_error + registry" where
  "load_rows reg [] = Inr reg"
| "load_rows reg (row # rows) =
     ebind (load_row row) (\<lambda>(emp_id, emp). load_rows (AList.update emp_id emp reg) rows)"

text \<open>
  The \<^verbatim>\<open>try\<close> block of \<^verbatim>\<open>_load_from_file\<close>: the rows, then the exception that ends the
  reading if the file has one.
\<close>

definition load_body :: "registry \<Rightarrow> csv_file \<Rightarrow> py_error + registry" where
  "load_body reg f =
     ebind (load_rows reg (DictReader (map (map nl_translate) (file_rows f)))) (\<lambda>reg'.
       case file_error f of None \<Rightarrow> Inr reg' | Some e \<Rightarrow> Inl e)"

text \<open>
  \<^verbatim>\<open>_load_from_file\<close> returns normally on every path: a missing file leaves the registry
  as it is, and \<^verbatim>\<open>except Exception\<close> replaces it by the empty one.
\<close>

definition load_from_file :: "filesystem \<Rightarrow> hrsystem \<Rightarrow> py_error + hrsystem" where
  "load_from_file fs self =
     (case fs (storage_file self) of
        None \<Rightarrow> Inr self
      | Some f \<Rightarrow>
          (case load_body (employees self) f of
             Inl e \<Rightarrow> Inr (self\<lparr>employees := []\<rparr>)
           | Inr reg \<Rightarrow> Inr (self\<lparr>employees := reg\<rparr>)))"

definition HRSystem_init :: "filesystem \<Rightarrow> string \<Rightarrow> py_error + hrsystem" where
  "HRSystem_init fs path = load_from_file fs \<lparr>employees = [], storage_file = path\<rparr>"

section \<open>Example data\<close>

text \<open>Records and files of the kind the demo driver builds, for concrete evaluation.\<close>

definition demo_fulltime :: employee where
  "demo_fulltime = FullTime_init (VStr ''FT001'') (VStr ''Alice kumar'') (VStr ''2018-06-15'')
     (VInt 80000) (VStr ''Full-Time'')"

definition seeded_fs :: filesystem where
  "seeded_fs = (\<lambda>p. if p = ''employees.csv''
                     then Some (CsvFile [[''emp_id'', ''role''], [''X1'', ''Intern'']] None)
                     else None)"

definition demo_parttime :: employee where
  "demo_parttime = PartTime_init (VStr ''PT101'') (VStr ''Bikash Singh'') (VStr ''2022-01-10'')
     (VInt 500) (VStr ''Part-Time'')"

text \<open>An intern as the driver builds one: constructed, then \<^verbatim>\<open>data['completed']\<close> assigned.\<close>

definition demo_intern :: "pyval \<Rightarrow> pyval \<Rightarrow> employee" where
  "demo_intern stipend completed =
     (let e3 = Intern_init (VStr ''IN900'') (VStr ''Charu Rai'') (VStr ''2024-07-01'') stipend
                 (VStr ''Intern'')
      in e3\<lparr>data := dict_set (data e3) (Some ''completed'') completed\<rparr>)"

text \<open>A file holding one intern who has not completed: what saving that intern writes.\<close>

definition intern_false_file :: csv_file where
  "intern_false_file = CsvFile
     [[''completed'', ''emp_id'', ''join_date'', ''name'', ''role'', ''stipend''],
      [''False'', ''IN900'', ''2024-07-01'', ''Charu Rai'', ''Intern'', ''15000'']] None"

text \<open>A file whose second record has an unreadable salary, and one that ends in a read error.\<close>

definition bad_salary_file :: csv_file where
  "bad_salary_file = CsvFile
     [[''emp_id'', ''role'', ''monthly_salary''],
      [''FT001'', ''Full-Time'', ''80000''],
      [''FT002'', ''Full-Time'', ''abc'']] None"

definition truncated_file :: csv_file where
  "truncated_file = CsvFile
     [[''emp_id'', ''role'', ''monthly_salary''],
      [''FT001'', ''Full-Time'', ''80000'']] (Some ReadError)"

definition one_file :: "csv_file \<Rightarrow> filesystem" where
  "one_file f = (\<lambda>p. if p = ''employees.csv'' then Some f else None)"

section \<open>Sequences of registry operations\<close>

text \<open>
  An operation that raises leaves the registry as it was: \<^verbatim>\<open>add_employee\<close> and
  \<^verbatim>\<open>remove_employee\<close> raise before they touch it, and \<^verbatim>\<open>_load_from_file\<close> never raises.
\<close>

datatype hr_op = Add employee | Remove pyval | Load filesystem

definition apply_op :: "hrsystem \<Rightarrow> hr_op \<Rightarrow> hrsystem" where
  "apply_op self op =
     (case (case op of
              Add e \<Rightarrow> add_employee self e
            | Remove k \<Rightarrow> remove_employee self k
            | Load fs \<Rightarrow> load_from_file fs self) of
        Inl err \<Rightarrow> self
      | Inr self' \<Rightarrow> self')"

definition key_consistent :: "registry \<Rightarrow> bool" where
  "key_consistent reg = list_all (\<lambda>(k, e). dict_get (data e) ''emp_id'' = Some k) reg"

text \<open>The ids of the data model are strings.\<close>

definition str_id :: "employee \<Rightarrow> bool" where
  "str_id e = (case dict_get (data e) ''emp_id'' of Some (VStr s) \<Rightarrow> True | _ \<Rightarrow> False)"

fun adds_str_ids :: "hr_op \<Rightarrow> bool" where
  "adds_str_ids (Add e) = str_id e"
| "adds_str_ids _ = True"

text \<open>The record that loading \<open>intern_false_file\<close> yields.\<close>

definition reloaded_intern :: employee where
  "reloaded_intern = \<lparr>cls = Intern,
     data = [(Some ''emp_id'', VStr ''IN900''), (Some ''name'', VStr ''Charu Rai''),
             (Some ''join_date'', VStr ''2024-07-01''), (Some ''role'', VStr ''Intern''),
             (Some ''stipend'', VInt 15000), (Some ''completed'', VStr ''False'')]\<rparr>"

text \<open>No file anywhere, and a system that has had one record added.\<close>

definition empty_fs :: filesystem where
  "empty_fs = (\<lambda>p. None)"

definition parttime_system :: hrsystem where
  "parttime_system =
     \<lparr>employees = [(VStr ''PT101'', demo_parttime)], storage_file = ''employees.csv''\<rparr>"

text \<open>
  A part-time employee whose hourly rate is the float \<^verbatim>\<open>1e16\<close>, the file that saving a
  registry holding that employee writes, and the record that loading the file yields.
\<close>

definition costly_parttime :: employee where
  "costly_parttime = PartTime_init (VStr ''PT900'') (VStr ''Dev Rao'') (VStr ''2022-01-10'')
     (VFloat (Finite 10000000000000000)) (VStr ''Part-Time'')"

definition exponent_file :: csv_file where
  "exponent_file = CsvFile
     [[''emp_id'', ''hourly_rate'', ''join_date'', ''monthly_hours'', ''name'', ''role''],
      [''PT900'', ''1e+16'', ''2022-01-10'', ''0'', ''Dev Rao'', ''Part-Time'']] None"

definition reloaded_parttime :: employee where
  "reloaded_parttime = \<lparr>cls = PartTime,
     data = [(Some ''emp_id'', VStr ''PT900''), (Some ''name'', VStr ''Dev Rao''),
             (Some ''join_date'', VStr ''2022-01-10''), (Some ''role'', VStr ''Part-Time''),
             (Some ''hourly_rate'', VStr ''1e+16''), (Some ''monthly_hours'', VInt 0)]\<rparr>"

section \<open>Evaluation\<close>

text \<open>The overflow threshold of \<open>to_double\<close> as a numeral, for evaluating concrete inputs.\<close>

lemma two_pow_1024: "(2::rat) ^ 1024 = 179769313486231590772930519078902473361797697894230657273430081157732675805500963132708477322407536021120113879871393357658789768814416622492847430639474124377767893424865485276302219601246094119453082952085005768838150682342462881473913110540827237163350510684586298239947245938479716304835356329624224137216"
  by simp

lemma to_double_code [code]:
  "to_double x = (let y = fl x
     in if 179769313486231590772930519078902473361797697894230657273430081157732675805500963132708477322407536021120113879871393357658789768814416622492847430639474124377767893424865485276302219601246094119453082952085005768838150682342462881473913110540827237163350510684586298239947245938479716304835356329624224137216 \<le> y then PosInf
        else if y \<le> - 179769313486231590772930519078902473361797697894230657273430081157732675805500963132708477322407536021120113879871393357658789768814416622492847430639474124377767893424865485276302219601246094119453082952085005768838150682342462881473913110540827237163350510684586298239947245938479716304835356329624224137216 then NegInf
        else Finite y)"
  unfolding to_double_def two_pow_1024 by (rule refl)

text \<open>Unfolding sets for evaluating the string and dictionary functions by rewriting.\<close>

lemmas parse_defs = parse_int_def parse_float_def parse_decimal_def parse_exponent_def
  drop_underscores_def split_sign_def py_strip_def is_space_def is_digit_def digit_val_def
  digits_to_nat_def lower_char_def

lemmas dict_defs = dict_get_def dict_set_def dict_item_def dict_update_def row_get_def

lemmas init_defs = Employee_init_def FullTime_init_def PartTime_init_def Intern_init_def

lemmas load_defs = load_from_file_def HRSystem_init_def load_body_def DictReader_def
  row_dict_def load_row_def extra_field_def coerce_def or_zero_def ebind_def one_file_def

text \<open>Concrete float operations, computed once.\<close>

lemma to_double_15000: "to_double 15000 = Finite 15000"
  by code_simp

lemma to_double_80000: "to_double 80000 = Finite 80000"
  by code_simp

lemma float_mul_tenth_15000: "float_mul (float_lit (1 / 10)) (Finite 15000) = Finite 1500"
  by code_simp

lemma float_add_15000_1500: "float_add (Finite 15000) (Finite 1500) = Finite 16500"
  by code_simp

lemma float_round2_16500: "float_round2 (Finite 16500) = Inr (Finite 16500)"
  by code_simp

section \<open>Salary rules\<close>

text \<open>
  C5. Without the bonus, \<^verbatim>\<open>FullTime.calculate_salary(months, False)\<close> is
  \<^verbatim>\<open>round(monthly_salary * months, 2)\<close>: the product and the rounding of Python, with the
  exceptions they raise, for every stored salary and every argument.
\<close>

theorem FullTime_salary_no_bonus:
  "dict_get (data self) ''monthly_salary'' = Some ms \<Longrightarrow>
   FullTime_calculate_salary today self months False = ebind (py_mul ms months) py_round2"
  by (simp add: FullTime_calculate_salary_def dict_item_def ebind_def)

theorem FullTime_salary_no_bonus_witness:
  "dict_get (data demo_fulltime) ''monthly_salary'' = Some (VInt 80000)
   \<and> FullTime_calculate_salary (2026, 11, 4) demo_fulltime (VInt 3) False = Inr (VInt 240000)"
proof -
  have h: "dict_get (data demo_fulltime) ''monthly_salary'' = Some (VInt 80000)"
    by (simp add: demo_fulltime_def FullTime_init_def Employee_init_def dict_update_def
          dict_set_def dict_get_def)
  have r: "ebind (py_mul (VInt 80000) (VInt 3)) py_round2 = Inr (VInt 240000)"
    by (simp add: ebind_def py_mul_def py_round2_def)
  show ?thesis
    using FullTime_salary_no_bonus [OF h, of "(2026, 11, 4)" "VInt 3"] h r by simp
qed

text \<open>
  C9. \<^verbatim>\<open>calculate_salary\<close> of the base class raises \<^verbatim>\<open>NotImplementedError\<close> for every
  record and never returns a value.
\<close>

theorem Employee_salary_unsupported:
  "Employee_calculate_salary self = Inl NotImplementedError
   \<and> (\<nexists>v. Employee_calculate_salary self = Inr v)"
  by (simp add: Employee_calculate_salary_def)

text \<open>Reading a key after a store.\<close>

lemma dict_get_set:
  "dict_get (dict_set d k v) k' = (if k = Some k' then Some v else dict_get d k')"
  by (simp add: dict_get_def dict_set_def update_conv')

text \<open>
  C7. For a record with a stored rate \<open>r\<close>, whenever the product \<open>r * h\<close>, the comparison
  \<open>h >= 80\<close> (made only when \<open>apply_bonus\<close> holds) and the bonus evaluate, the call returns
  \<^verbatim>\<open>round(base + bonus, 2)\<close> with \<open>base = r * h\<close> and \<open>bonus = base * 0.02\<close> if \<open>apply_bonus\<close> and
  \<open>h >= 80\<close>, else \<open>0\<close>; and the record afterwards holds \<open>h\<close> under \<^verbatim>\<open>monthly_hours\<close>. At rate
  500, 79 hours with bonus give the int 39500 and 80 hours give 40800.0.
\<close>

theorem PartTime_salary:
  assumes "dict_get (data self) ''hourly_rate'' = Some r"
    and "py_mul r h = Inr base"
    and "ab \<longrightarrow> py_ge_int h 80 = Inr c"
    and "(if ab \<and> c then py_mul base (VFloat (float_lit (2 / 100))) else Inr (VInt 0))
           = Inr bonus"
  shows "PartTime_calculate_salary self h ab
           = (self\<lparr>data := dict_set (data self) (Some ''monthly_hours'') h\<rparr>,
              ebind (py_add base bonus) py_round2)
         \<and> dict_get (data (fst (PartTime_calculate_salary self h ab))) ''monthly_hours'' = Some h
         \<and> snd (PartTime_calculate_salary demo_parttime (VInt 79) True) = Inr (VInt 39500)
         \<and> num_value (VInt 39500) = Some 39500
         \<and> snd (PartTime_calculate_salary demo_parttime (VInt 80) True)
             = Inr (VFloat (Finite 40800))"
proof -
  have r: "PartTime_calculate_salary self h ab
        = (self\<lparr>data := dict_set (data self) (Some ''monthly_hours'') h\<rparr>,
           ebind (py_add base bonus) py_round2)"
    using assms
    by (cases ab; cases c)
       (simp_all add: PartTime_calculate_salary_def dict_item_def ebind_def)
  have g: "dict_get (data (fst (PartTime_calculate_salary self h ab))) ''monthly_hours'' = Some h"
    by (simp add: r dict_get_set)
  have e79: "snd (PartTime_calculate_salary demo_parttime (VInt 79) True) = Inr (VInt 39500)"
    by code_simp
  have e80: "snd (PartTime_calculate_salary demo_parttime (VInt 80) True)
               = Inr (VFloat (Finite 40800))"
    by code_simp
  show ?thesis using r g e79 e80 by simp
qed

theorem PartTime_salary_witness:
  "dict_get (data demo_parttime) ''hourly_rate'' = Some (VInt 500)
   \<and> py_mul (VInt 500) (VInt 80) = Inr (VInt 40000)
   \<and> py_ge_int (VInt 80) 80 = Inr True
   \<and> py_mul (VInt 40000) (VFloat (float_lit (2 / 100))) = Inr (VFloat (Finite 800))
   \<and> PartTime_calculate_salary demo_parttime (VInt 80) True
       = (demo_parttime\<lparr>data := dict_set (data demo_parttime) (Some ''monthly_hours'') (VInt 80)\<rparr>,
          Inr (VFloat (Finite 40800)))"
proof -
  have h1: "dict_get (data demo_parttime) ''hourly_rate'' = Some (VInt 500)" by code_simp
  have h2: "py_mul (VInt 500) (VInt 80) = Inr (VInt 40000)" by code_simp
  have h3: "py_ge_int (VInt 80) 80 = Inr True" by code_simp
  have h4: "py_mul (VInt 40000) (VFloat (float_lit (2 / 100))) = Inr (VFloat (Finite 800))"
    by code_simp
  have h5: "ebind (py_add (VInt 40000) (VFloat (Finite 800))) py_round2
              = Inr (VFloat (Finite 40800))"
    by code_simp
  have h3': "True \<longrightarrow> py_ge_int (VInt 80) 80 = Inr True" using h3 by simp
  have h4': "(if True \<and> True then py_mul (VInt 40000) (VFloat (float_lit (2 / 100)))
              else Inr (VInt 0)) = Inr (VFloat (Finite 800))" using h4 by simp
  show ?thesis
    using PartTime_salary [OF h1 h2 h3' h4'] h1 h2 h3 h4 h5 by simp
qed

text \<open>
  C8, as stated, fails: for a completed intern with stipend \<open>0.45\<close> the code returns
  \<open>0.49\<close>, while \<^verbatim>\<open>round(1.10 * 0.45, 2)\<close> is \<open>0.5\<close>.
\<close>

theorem Intern_allowance_counterexample:
  "truthy (VBool True)
   \<and> dict_get (data (demo_intern (VFloat (float_lit (45 / 100))) (VBool True))) ''completed''
       = Some (VBool True)
   \<and> Intern_calculate_salary (demo_intern (VFloat (float_lit (45 / 100))) (VBool True)) True
       = Inr (VFloat (float_lit (49 / 100)))
   \<and> ebind (py_mul (VFloat (float_lit (110 / 100))) (VFloat (float_lit (45 / 100)))) py_round2
       = Inr (VFloat (float_lit (50 / 100)))
   \<and> float_lit (49 / 100) \<noteq> float_lit (50 / 100)"
  by code_simp

text \<open>
  C8, amended. If \<open>completed\<close> is falsy, the call with the allowance flag returns what the
  call without it returns; if \<open>completed\<close> is truthy it returns
  \<^verbatim>\<open>round(stipend + 0.10 * stipend, 2)\<close>, the sum of two rounded float operations, which is
  16500.0 for the stipend 15000.
\<close>

theorem Intern_salary:
  assumes "dict_get (data self) ''stipend'' = Some s"
    and "completed = (case dict_get (data self) ''completed'' of
                        None \<Rightarrow> VBool False | Some v \<Rightarrow> v)"
  shows "(\<not> truthy completed \<longrightarrow>
            Intern_calculate_salary self True = Intern_calculate_salary self False)
         \<and> (truthy completed \<longrightarrow>
            Intern_calculate_salary self True
              = ebind (py_mul (VFloat (float_lit (10 / 100))) s) (\<lambda>allowance.
                  ebind (py_add s allowance) py_round2))
         \<and> Intern_calculate_salary self False = ebind (py_add s (VInt 0)) py_round2
         \<and> Intern_calculate_salary (demo_intern (VInt 15000) (VBool True)) True
             = Inr (VFloat (Finite 16500))"
proof -
  have ex: "Intern_calculate_salary (demo_intern (VInt 15000) (VBool True)) True
       = Inr (VFloat (Finite 16500))"
    by code_simp
  show ?thesis
    using assms ex by (simp add: Intern_calculate_salary_def dict_item_def ebind_def)
qed

theorem Intern_salary_witness:
  "dict_get (data (demo_intern (VInt 15000) (VBool True))) ''stipend'' = Some (VInt 15000)
   \<and> truthy (VBool True)
   \<and> Intern_calculate_salary (demo_intern (VInt 15000) (VBool True)) True
       = Inr (VFloat (Finite 16500))
   \<and> Intern_calculate_salary (demo_intern (VInt 15000) (VBool True)) False = Inr (VInt 15000)
   \<and> Intern_calculate_salary (demo_intern (VInt 15000) (VBool False)) True
       = Intern_calculate_salary (demo_intern (VInt 15000) (VBool False)) False"
proof -
  have h1: "dict_get (data (demo_intern (VInt 15000) (VBool True))) ''stipend'' = Some (VInt 15000)"
    by code_simp
  have h2: "dict_get (data (demo_intern (VInt 15000) (VBool False))) ''stipend'' = Some (VInt 15000)"
    by code_simp
  have c1: "VBool True = (case dict_get (data (demo_intern (VInt 15000) (VBool True))) ''completed''
                          of None \<Rightarrow> VBool False | Some v \<Rightarrow> v)"
    by code_simp
  have c2: "VBool False = (case dict_get (data (demo_intern (VInt 15000) (VBool False))) ''completed''
                          of None \<Rightarrow> VBool False | Some v \<Rightarrow> v)"
    by code_simp
  have r: "ebind (py_add (VInt 15000) (VInt 0)) py_round2 = Inr (VInt 15000)"
    by code_simp
  show ?thesis
    using Intern_salary [OF h1 c1] Intern_salary [OF h2 c2] h1 r by simp
qed

section \<open>Persistence\<close>

text \<open>
  C4. Saving an empty registry returns at once: the file system after the call is the file
  system before it, so no file is created and an existing one keeps its content.
\<close>

theorem save_empty_is_noop:
  "employees self = [] \<Longrightarrow> save_to_file fs self = Inr fs"
  by (simp add: save_to_file_def)

theorem save_empty_is_noop_witness:
  "employees \<lparr>employees = [], storage_file = ''employees.csv''\<rparr> = []
   \<and> save_to_file seeded_fs \<lparr>employees = [], storage_file = ''employees.csv''\<rparr> = Inr seeded_fs
   \<and> seeded_fs ''employees.csv''
       = Some (CsvFile [[''emp_id'', ''role''], [''X1'', ''Intern'']] None)"
  using save_empty_is_noop [of "\<lparr>employees = [], storage_file = ''employees.csv''\<rparr>" seeded_fs]
  by (simp add: seeded_fs_def)

text \<open>\<^verbatim>\<open>_load_from_file\<close> returns normally whatever the file holds.\<close>

lemma load_from_file_returns: "\<exists>hr. load_from_file fs self = Inr hr"
  by (simp add: load_from_file_def split: option.splits sum.splits)

text \<open>
  C3, as stated, fails in its first half: on a missing file \<^verbatim>\<open>_load_from_file\<close> returns
  without touching the registry, so a registry that holds a record still holds it. Here the
  system is the one the constructor builds on a missing file, with one record added.
\<close>

theorem load_missing_file_keeps_registry:
  "ebind (HRSystem_init empty_fs ''employees.csv'') (\<lambda>hr. add_employee hr demo_parttime)
     = Inr parttime_system
   \<and> empty_fs (storage_file parttime_system) = None
   \<and> load_from_file empty_fs parttime_system = Inr parttime_system
   \<and> employees parttime_system \<noteq> []"
  by (simp add: parttime_system_def empty_fs_def HRSystem_init_def load_from_file_def
        add_employee_def demo_parttime_def init_defs dict_defs ebind_def)

text \<open>
  C3, amended. On a missing file \<^verbatim>\<open>_load_from_file\<close> returns the registry as it found it and
  raises nothing; the registry is therefore empty when the call is the constructor's, which
  has just created it empty. When the body of the load raises, at any row or at the end of
  the reading, the registry is replaced by the empty one. In every case the call returns and
  raises nothing.
\<close>

theorem load_fail_safe_empty:
  "(fs path = None \<longrightarrow>
      HRSystem_init fs path = Inr \<lparr>employees = [], storage_file = path\<rparr>)
   \<and> (fs (storage_file self) = None \<longrightarrow> load_from_file fs self = Inr self)
   \<and> (\<forall>f e. fs (storage_file self) = Some f \<longrightarrow> load_body (employees self) f = Inl e \<longrightarrow>
         load_from_file fs self = Inr (self\<lparr>employees := []\<rparr>))
   \<and> (\<exists>hr. load_from_file fs self = Inr hr)"
  by (simp add: HRSystem_init_def load_from_file_def split: option.splits sum.splits)

theorem load_fail_safe_empty_witness:
  "(\<lambda>p. None :: csv_file option) ''employees.csv'' = None
   \<and> HRSystem_init (\<lambda>p. None) ''employees.csv''
       = Inr \<lparr>employees = [], storage_file = ''employees.csv''\<rparr>
   \<and> one_file bad_salary_file ''employees.csv'' = Some bad_salary_file
   \<and> load_body [] bad_salary_file = Inl ValueError
   \<and> load_from_file (one_file bad_salary_file)
        \<lparr>employees = [], storage_file = ''employees.csv''\<rparr>
       = Inr \<lparr>employees = [], storage_file = ''employees.csv''\<rparr>
   \<and> load_body [(VStr ''PT101'', demo_parttime)] truncated_file = Inl ReadError
   \<and> load_from_file (one_file truncated_file)
        \<lparr>employees = [(VStr ''PT101'', demo_parttime)], storage_file = ''employees.csv''\<rparr>
       = Inr \<lparr>employees = [], storage_file = ''employees.csv''\<rparr>"
proof -
  have f1: "one_file bad_salary_file ''employees.csv'' = Some bad_salary_file"
    by (simp add: one_file_def)
  have f2: "one_file truncated_file ''employees.csv'' = Some truncated_file"
    by (simp add: one_file_def)
  have b1: "load_body [] bad_salary_file = Inl ValueError"
    by (simp add: bad_salary_file_def load_defs dict_defs init_defs parse_defs
          to_double_80000 Let_def)
  have b2: "load_body [(VStr ''PT101'', demo_parttime)] truncated_file = Inl ReadError"
    by (simp add: truncated_file_def load_defs dict_defs init_defs parse_defs
          to_double_80000 Let_def)
  have w1: "HRSystem_init (\<lambda>p. None) ''employees.csv''
       = Inr \<lparr>employees = [], storage_file = ''employees.csv''\<rparr>"
    using load_fail_safe_empty [of "\<lambda>p. None" "''employees.csv''"] by simp
  have w2: "load_from_file (one_file bad_salary_file)
              \<lparr>employees = [], storage_file = ''employees.csv''\<rparr>
            = Inr \<lparr>employees = [], storage_file = ''employees.csv''\<rparr>"
    using load_fail_safe_empty
            [of "one_file bad_salary_file" "''employees.csv''"
                "\<lparr>employees = [], storage_file = ''employees.csv''\<rparr>"] f1 b1
    by simp
  have w3: "load_from_file (one_file truncated_file)
        \<lparr>employees = [(VStr ''PT101'', demo_parttime)], storage_file = ''employees.csv''\<rparr>
       = Inr \<lparr>employees = [], storage_file = ''employees.csv''\<rparr>"
    using load_fail_safe_empty
            [of "one_file truncated_file" "''employees.csv''"
                "\<lparr>employees = [(VStr ''PT101'', demo_parttime)],
                  storage_file = ''employees.csv''\<rparr>"] f2 b2
    by simp
  show ?thesis using f1 b1 b2 w1 w2 w3 by simp
qed

text \<open>
  C2. The code at a row with role \<^verbatim>\<open>Intern\<close> and \<^verbatim>\<open>completed\<close> cell \<^verbatim>\<open>False\<close>, which is the file
  that saving an intern who has not completed writes: the loader first leaves \<^verbatim>\<open>completed\<close>
  false, and the loop over the remaining columns then stores the cell itself, the
  non-empty string \<^verbatim>\<open>'False'\<close>. That string is truthy, so the reloaded intern is paid the
  completion allowance (16500.0) that the saved intern (15000) is not.
\<close>

theorem load_intern_completed_False:
  "save_to_file (\<lambda>p. None)
       \<lparr>employees = [(VStr ''IN900'', demo_intern (VInt 15000) (VBool False))],
        storage_file = ''employees.csv''\<rparr>
     = Inr (one_file intern_false_file)
   \<and> HRSystem_init (one_file intern_false_file) ''employees.csv''
       = Inr \<lparr>employees = [(VStr ''IN900'', reloaded_intern)],
              storage_file = ''employees.csv''\<rparr>
   \<and> dict_get (data reloaded_intern) ''completed'' = Some (VStr ''False'')
   \<and> truthy (VStr ''False'')
   \<and> Intern_calculate_salary reloaded_intern True = Inr (VFloat (Finite 16500))
   \<and> Intern_calculate_salary (demo_intern (VInt 15000) (VBool False)) True
       = Inr (VInt 15000)"
proof -
  have s: "save_to_file (\<lambda>p. None)
       \<lparr>employees = [(VStr ''IN900'', demo_intern (VInt 15000) (VBool False))],
        storage_file = ''employees.csv''\<rparr>
     = Inr (one_file intern_false_file)"
    apply (simp add: save_to_file_def to_dict_def demo_intern_def init_defs dict_defs Let_def
        sorted_keys_def ebind_def row_cells_def header_cell_def one_file_def
        intern_false_file_def int_str_def digit_char_def)
    apply (rule ext)
    apply (simp add: sorted_keys_def)
    done
  have l: "HRSystem_init (one_file intern_false_file) ''employees.csv''
       = Inr \<lparr>employees = [(VStr ''IN900'', reloaded_intern)],
              storage_file = ''employees.csv''\<rparr>"
    by (simp add: reloaded_intern_def intern_false_file_def load_defs dict_defs init_defs
          parse_defs to_double_15000 Let_def)
  have g: "dict_get (data reloaded_intern) ''completed'' = Some (VStr ''False'')"
    by (simp add: reloaded_intern_def dict_get_def)
  have p: "Intern_calculate_salary reloaded_intern True = Inr (VFloat (Finite 16500))"
    by (simp add: reloaded_intern_def Intern_calculate_salary_def dict_defs ebind_def
          py_mul_def py_add_def py_round2_def int_to_float_def to_double_15000
          float_mul_tenth_15000 float_add_15000_1500 float_round2_16500
          del: float_mul.simps float_add.simps)
  have c: "Intern_calculate_salary (demo_intern (VInt 15000) (VBool False)) True
       = Inr (VInt 15000)"
    by (simp add: demo_intern_def Intern_calculate_salary_def init_defs dict_defs ebind_def
          py_add_def py_round2_def Let_def)
  show ?thesis using s l g p c by simp
qed

section \<open>Registry invariant\<close>

lemma init_emp_id:
  "dict_get (data (Employee_init c i n j r)) ''emp_id'' = Some i"
  "dict_get (data (FullTime_init i n j m r)) ''emp_id'' = Some i"
  "dict_get (data (PartTime_init i n j m r)) ''emp_id'' = Some i"
  "dict_get (data (Intern_init i n j m r)) ''emp_id'' = Some i"
  by (simp_all add: Employee_init_def FullTime_init_def PartTime_init_def Intern_init_def
        dict_update_def dict_get_set Let_def)
    (simp_all add: dict_get_def)

lemma extra_field_emp_id:
  "dict_get (data (extra_field emp kv)) ''emp_id'' = dict_get (data emp) ''emp_id''"
  by (cases kv) (auto simp: extra_field_def dict_get_set)

lemma foldl_extra_field_emp_id:
  "dict_get (data (foldl extra_field emp row)) ''emp_id'' = dict_get (data emp) ''emp_id''"
  by (induction row arbitrary: emp) (simp_all add: extra_field_emp_id)

text \<open>The record a row yields carries the id it is filed under.\<close>

lemma load_row_emp_id:
  "load_row row = Inr (k, e) \<Longrightarrow> dict_get (data e) ''emp_id'' = Some k"
  by (auto simp: load_row_def Let_def ebind_def foldl_extra_field_emp_id init_emp_id dict_get_set
           split: if_splits sum.splits)

lemma in_set_update:
  "(k', v') \<in> set (AList.update k v al) \<Longrightarrow> (k', v') = (k, v) \<or> (k', v') \<in> set al"
  by (induction al) (auto split: if_splits)

lemma key_consistent_update:
  "key_consistent reg \<Longrightarrow> dict_get (data e) ''emp_id'' = Some k \<Longrightarrow>
   key_consistent (AList.update k e reg)"
  unfolding key_consistent_def list_all_iff by (auto dest: in_set_update)

lemma key_consistent_delete:
  "key_consistent reg \<Longrightarrow> key_consistent (AList.delete k reg)"
  unfolding key_consistent_def list_all_iff by (auto simp: AList.delete_eq)

lemma load_rows_consistent:
  "key_consistent reg \<Longrightarrow> load_rows reg rows = Inr reg' \<Longrightarrow> key_consistent reg'"
proof (induction rows arbitrary: reg)
  case Nil
  then show ?case by simp
next
  case (Cons row rows)
  from Cons.prems(2) obtain k e where r: "load_row row = Inr (k, e)"
    and rest: "load_rows (AList.update k e reg) rows = Inr reg'"
    by (auto simp: ebind_def split: sum.splits)
  show ?case
    using Cons.IH [OF key_consistent_update [OF Cons.prems(1) load_row_emp_id [OF r]] rest] .
qed

lemma load_from_file_consistent:
  "key_consistent (employees self) \<Longrightarrow> load_from_file fs self = Inr self' \<Longrightarrow>
   key_consistent (employees self')"
  by (auto simp: load_from_file_def load_body_def ebind_def key_consistent_def
           split: option.splits sum.splits dest: load_rows_consistent [unfolded key_consistent_def])

lemma apply_op_consistent:
  assumes c: "key_consistent (employees self)"
  shows "key_consistent (employees (apply_op self op))"
proof (cases op)
  case (Add e)
  with c show ?thesis
    by (auto simp: apply_op_def add_employee_def ebind_def dict_item_def
             split: sum.splits option.splits if_splits intro: key_consistent_update)
next
  case (Remove k)
  with c show ?thesis
    by (auto simp: apply_op_def remove_employee_def split: sum.splits if_splits
             intro: key_consistent_delete)
next
  case (Load fs)
  with c show ?thesis
    by (auto simp: apply_op_def split: sum.splits dest: load_from_file_consistent)
qed

lemma foldl_apply_op_consistent:
  "key_consistent (employees self) \<Longrightarrow> key_consistent (employees (foldl apply_op self ops))"
  by (induction ops arbitrary: self) (simp_all add: apply_op_consistent)

text \<open>
  C10. A system is created by its constructor, which loads the storage file into the empty
  registry. After any sequence of \<^verbatim>\<open>add_employee\<close>, \<^verbatim>\<open>remove_employee\<close> and
  \<^verbatim>\<open>_load_from_file\<close> calls, with any arguments and any files, every record of the
  registry holds under \<^verbatim>\<open>emp_id\<close> the key it is filed under. The added records have string
  ids, as the data model says; for those the structural equality of the model is Python's
  \<^verbatim>\<open>==\<close>.
\<close>

theorem registry_key_consistency:
  assumes "HRSystem_init fs path = Inr self" and "list_all adds_str_ids ops"
  shows "key_consistent (employees (foldl apply_op self ops))
         \<and> (\<forall>k e. map_of (employees (foldl apply_op self ops)) k = Some e
                \<longrightarrow> dict_get (data e) ''emp_id'' = Some k)"
proof -
  have "key_consistent (employees \<lparr>employees = [], storage_file = path\<rparr>)"
    by (simp add: key_consistent_def)
  then have "key_consistent (employees self)"
    using assms(1) unfolding HRSystem_init_def by (rule load_from_file_consistent)
  then have c: "key_consistent (employees (foldl apply_op self ops))"
    by (rule foldl_apply_op_consistent)
  then show ?thesis
    unfolding key_consistent_def list_all_iff by (auto dest: map_of_SomeD)
qed

theorem registry_key_consistency_witness:
  "HRSystem_init (one_file intern_false_file) ''employees.csv''
     = Inr \<lparr>employees = [(VStr ''IN900'', reloaded_intern)], storage_file = ''employees.csv''\<rparr>
   \<and> list_all adds_str_ids
        [Add demo_fulltime, Load (one_file bad_salary_file), Add demo_parttime,
         Remove (VStr ''FT001''), Load (one_file intern_false_file)]
   \<and> key_consistent (employees (foldl apply_op
        \<lparr>employees = [(VStr ''IN900'', reloaded_intern)], storage_file = ''employees.csv''\<rparr>
        [Add demo_fulltime, Load (one_file bad_salary_file), Add demo_parttime,
         Remove (VStr ''FT001''), Load (one_file intern_false_file)]))"
proof -
  have h1: "HRSystem_init (one_file intern_false_file) ''employees.csv''
       = Inr \<lparr>employees = [(VStr ''IN900'', reloaded_intern)],
              storage_file = ''employees.csv''\<rparr>"
    by (simp add: reloaded_intern_def intern_false_file_def load_defs dict_defs init_defs
          parse_defs to_double_15000 Let_def)
  have h2: "list_all adds_str_ids
        [Add demo_fulltime, Load (one_file bad_salary_file), Add demo_parttime,
         Remove (VStr ''FT001''), Load (one_file intern_false_file)]"
    by (simp add: str_id_def demo_fulltime_def demo_parttime_def init_defs dict_defs)
  show ?thesis
    using registry_key_consistency [OF h1 h2] h1 h2 by simp
qed

section \<open>The bonus rate of a full-time employee\<close>

text \<open>
  Rounding to the nearest double is monotone, commutes with negation and is exact on the
  integers below \<open>2 ^ 53\<close>.
\<close>

lemma rhe_of_int [simp]: "round_half_even (of_int n) = n"
  by (simp add: round_half_even_def)

lemma rhe_cases: "round_half_even x = \<lfloor>x\<rfloor> \<or> round_half_even x = \<lfloor>x\<rfloor> + 1"
  by (simp add: round_half_even_def Let_def)

lemma rhe_mono:
  assumes "x \<le> y"
  shows "round_half_even x \<le> round_half_even y"
proof (cases "\<lfloor>x\<rfloor> = \<lfloor>y\<rfloor>")
  case True
  with assms show ?thesis
    by (auto simp: round_half_even_def Let_def)
next
  case False
  with assms have "\<lfloor>x\<rfloor> + 1 \<le> \<lfloor>y\<rfloor>"
    using floor_mono [of x y] by linarith
  moreover have "round_half_even x \<le> \<lfloor>x\<rfloor> + 1"
    using rhe_cases [of x] by linarith
  moreover have "\<lfloor>y\<rfloor> \<le> round_half_even y"
    using rhe_cases [of y] by linarith
  ultimately show ?thesis by linarith
qed

lemma rhe_minus: "round_half_even (- x) = - round_half_even x"
proof (cases "x \<in> \<int>")
  case True
  then obtain n where "x = of_int n" by (auto elim: Ints_cases)
  then show ?thesis by (simp flip: of_int_minus)
next
  case False
  then have "x \<noteq> of_int \<lfloor>x\<rfloor>"
    by (metis Ints_of_int)
  then have f: "\<lfloor>- x\<rfloor> = - \<lfloor>x\<rfloor> - 1"
    by (simp add: floor_minus ceiling_altdef)
  show ?thesis
    unfolding round_half_even_def Let_def f
    by (auto simp: algebra_simps) 
qed

lemma ilog2_bounds:
  assumes "x \<noteq> 0"
  shows "2 powi ilog2 x \<le> \<bar>x\<bar>" and "\<bar>x\<bar> < 2 powi (ilog2 x + 1)"
proof -
  obtain p q where pq: "quotient_of \<bar>x\<bar> = (p, q)" by (cases "quotient_of \<bar>x\<bar>")
  have q: "0 < q" using quotient_of_denom_pos [OF pq] .
  have xe: "\<bar>x\<bar> = of_int p / of_int q" using quotient_of_div [OF pq] .
  have "0 < rat_of_int p / rat_of_int q"
    using assms xe by simp
  then have p: "0 < p"
    using q by (simp add: zero_less_divide_iff)
  have bp: "1 \<le> bitlen p" and bq: "1 \<le> bitlen q"
    using p q bitlen_eq_zero_iff [of p] bitlen_eq_zero_iff [of q] bitlen_nonneg [of p]
      bitlen_nonneg [of q] by linarith+
  from bitlen_bounds [OF p] have p1: "(2::int) ^ nat (bitlen p - 1) \<le> p" and p2: "p < 2 ^ nat (bitlen p)"
    by simp_all
  from bitlen_bounds [OF q] have q1: "(2::int) ^ nat (bitlen q - 1) \<le> q" and q2: "q < 2 ^ nat (bitlen q)"
    by simp_all
  have P1: "(2::rat) powi (bitlen p - 1) \<le> of_int p"
  proof -
    have "rat_of_int (2 ^ nat (bitlen p - 1)) \<le> rat_of_int p"
      using p1 by (simp only: of_int_le_iff)
    moreover have "(2::rat) powi (bitlen p - 1) = 2 ^ nat (bitlen p - 1)"
      using bp by (simp add: power_int_nonneg_exp)
    ultimately show ?thesis by simp
  qed
  have P2: "of_int p < (2::rat) powi (bitlen p)"
  proof -
    have "rat_of_int p < rat_of_int (2 ^ nat (bitlen p))"
      using p2 by (simp only: of_int_less_iff)
    moreover have "(2::rat) powi (bitlen p) = 2 ^ nat (bitlen p)"
      using bp by (simp add: power_int_nonneg_exp)
    ultimately show ?thesis by simp
  qed
  have Q1: "(2::rat) powi (bitlen q - 1) \<le> of_int q"
  proof -
    have "rat_of_int (2 ^ nat (bitlen q - 1)) \<le> rat_of_int q"
      using q1 by (simp only: of_int_le_iff)
    moreover have "(2::rat) powi (bitlen q - 1) = 2 ^ nat (bitlen q - 1)"
      using bq by (simp add: power_int_nonneg_exp)
    ultimately show ?thesis by simp
  qed
  have Q2: "of_int q < (2::rat) powi (bitlen q)"
  proof -
    have "rat_of_int q < rat_of_int (2 ^ nat (bitlen q))"
      using q2 by (simp only: of_int_less_iff)
    moreover have "(2::rat) powi (bitlen q) = 2 ^ nat (bitlen q)"
      using bq by (simp add: power_int_nonneg_exp)
    ultimately show ?thesis by simp
  qed
  define d where "d = bitlen p - bitlen q"
  have lo: "2 powi (d - 1) < \<bar>x\<bar>"
  proof -
    have "d - 1 = (bitlen p - 1) - bitlen q"
      by (simp add: d_def)
    then have "(2::rat) powi (d - 1) = 2 powi (bitlen p - 1) / 2 powi (bitlen q)"
      by (simp only: power_int_diff [of "2::rat" "bitlen p - 1" "bitlen q", simplified])
    also have "\<dots> \<le> of_int p / 2 powi (bitlen q)"
      using P1 by (simp add: divide_right_mono)
    also have "\<dots> < of_int p / of_int q"
      using Q2 p q by (simp add: divide_strict_left_mono)
    finally show ?thesis by (simp add: xe)
  qed
  have hi: "\<bar>x\<bar> < 2 powi (d + 1)"
  proof -
    have "\<bar>x\<bar> = of_int p / of_int q" by (rule xe)
    also have "\<dots> < 2 powi (bitlen p) / of_int q"
      using P2 q by (simp add: divide_strict_right_mono)
    also have "\<dots> \<le> 2 powi (bitlen p) / 2 powi (bitlen q - 1)"
      using Q1 q by (simp add: divide_left_mono)
    also have "\<dots> = 2 powi (bitlen p - (bitlen q - 1))"
      by (simp only: power_int_diff [of "2::rat" "bitlen p" "bitlen q - 1", simplified])
    also have "bitlen p - (bitlen q - 1) = d + 1"
      by (simp add: d_def)
    finally show ?thesis .
  qed
  have e: "ilog2 x = (if 2 powi d \<le> \<bar>x\<bar> then d else d - 1)"
    by (simp add: ilog2_def pq d_def Let_def)
  show "2 powi ilog2 x \<le> \<bar>x\<bar>"
    using lo by (simp add: e)
  show "\<bar>x\<bar> < 2 powi (ilog2 x + 1)"
    using hi by (auto simp: e)
qed

lemma ilog2_unique:
  assumes "2 powi e \<le> \<bar>x\<bar>" and "\<bar>x\<bar> < 2 powi (e + 1)"
  shows "ilog2 x = e"
proof -
  have "(0::rat) < 2 powi e" by simp
  then have "0 < \<bar>x\<bar>" using assms(1) by linarith
  then have x: "x \<noteq> 0" by simp
  have a: "(2::rat) powi e < 2 powi (ilog2 x + 1)"
    using assms(1) ilog2_bounds(2) [OF x] by linarith
  have b: "(2::rat) powi ilog2 x < 2 powi (e + 1)"
    using assms(2) ilog2_bounds(1) [OF x] by linarith
  have "e < ilog2 x + 1"
    using a power_int_increasing [of "ilog2 x + 1" e "2::rat"] by (cases "e < ilog2 x + 1") auto
  moreover have "ilog2 x < e + 1"
    using b power_int_increasing [of "e + 1" "ilog2 x" "2::rat"] by (cases "ilog2 x < e + 1") auto
  ultimately show ?thesis by linarith
qed


lemma ilog2_minus [simp]: "ilog2 (- x) = ilog2 x"
  by (simp add: ilog2_def)

lemma quantum_minus [simp]: "quantum (- x) = quantum x"
  by (simp add: quantum_def)

lemma fl_minus: "fl (- x) = - fl x"
  by (simp add: fl_def rhe_minus)

lemma fl_0 [simp]: "fl 0 = 0"
  by (simp add: fl_def)

lemma rhe_0 [simp]: "round_half_even 0 = 0"
  using rhe_of_int [of 0] by simp

lemma rhe_nonneg: "0 \<le> x \<Longrightarrow> 0 \<le> round_half_even x"
  using rhe_mono [of 0 x] by simp

lemma fl_nonneg: "0 \<le> x \<Longrightarrow> 0 \<le> fl x"
  by (simp add: fl_def rhe_nonneg)

lemma ilog2_mono:
  assumes "0 < x" and "x \<le> y"
  shows "ilog2 x \<le> ilog2 y"
proof -
  have "x \<noteq> 0" "y \<noteq> 0" using assms by auto
  then have "(2::rat) powi ilog2 x < 2 powi (ilog2 y + 1)"
    using ilog2_bounds(1) [of x] ilog2_bounds(2) [of y] assms by simp
  then have "ilog2 x < ilog2 y + 1"
    using power_int_increasing [of "ilog2 y + 1" "ilog2 x" "2::rat"]
    by (cases "ilog2 x < ilog2 y + 1") auto
  then show ?thesis by simp
qed

text \<open>Rounding a positive number below a power of two stays at or below it.\<close>

lemma rhe_le_power:
  assumes "0 < t" and "t < 2 powi m"
  shows "of_int (round_half_even t) \<le> (2::rat) powi m"
proof (cases "0 \<le> m")
  case True
  then have e: "(2::rat) powi m = 2 ^ nat m"
    by (simp add: power_int_nonneg_exp)
  have r: "round_half_even ((2::rat) ^ nat m) = 2 ^ nat m"
    using rhe_of_int [of "2 ^ nat m"] by simp
  have "round_half_even t \<le> round_half_even ((2::rat) ^ nat m)"
    using assms(2) unfolding e by (intro rhe_mono) simp
  then have "round_half_even t \<le> 2 ^ nat m"
    by (simp only: r)
  then have "rat_of_int (round_half_even t) \<le> rat_of_int (2 ^ nat m)"
    by (simp only: of_int_le_iff)
  then show ?thesis unfolding e by simp
next
  case False
  then have "(2::rat) powi m \<le> 2 powi (- 1)"
    by (intro power_int_increasing) auto
  then have h: "t < 1 / 2" using assms(2) by simp
  then have "\<lfloor>t\<rfloor> = 0" using assms(1) by (simp add: floor_eq_iff)
  then have "round_half_even t = 0"
    using h by (simp add: round_half_even_def Let_def)
  then show ?thesis by simp
qed

lemma fl_le_power:
  assumes "0 < x"
  shows "fl x \<le> 2 powi (ilog2 x + 1)"
proof -
  have x: "x \<noteq> 0" using assms by simp
  let ?q = "quantum x"
  have "x / 2 powi ?q < 2 powi (ilog2 x + 1 - ?q)"
    using ilog2_bounds(2) [OF x] assms by (simp add: power_int_diff divide_strict_right_mono)
  moreover have "0 < x / 2 powi ?q" using assms by simp
  ultimately have "of_int (round_half_even (x / 2 powi ?q)) \<le> (2::rat) powi (ilog2 x + 1 - ?q)"
    by (rule rhe_le_power [rotated])
  then have "of_int (round_half_even (x / 2 powi ?q)) * 2 powi ?q
             \<le> (2::rat) powi (ilog2 x + 1 - ?q) * 2 powi ?q"
    by (simp add: mult_right_mono)
  also have "\<dots> = 2 powi (ilog2 x + 1)"
    using power_int_add [of "2::rat" "ilog2 x + 1 - ?q" ?q] by simp
  finally show ?thesis using x by (simp add: fl_def)
qed

lemma fl_ge_power:
  assumes "0 < x" and "quantum x = ilog2 x - 52"
  shows "2 powi ilog2 x \<le> fl x"
proof -
  have x: "x \<noteq> 0" using assms by simp
  let ?q = "quantum x"
  have "(2::rat) powi (ilog2 x - ?q) \<le> x / 2 powi ?q"
    using ilog2_bounds(1) [OF x] assms(1) by (simp add: power_int_diff divide_right_mono)
  then have "(2::rat) ^ 52 \<le> x / 2 powi ?q"
    by (simp add: assms(2))
  then have "round_half_even ((2::rat) ^ 52) \<le> round_half_even (x / 2 powi ?q)"
    by (rule rhe_mono)
  moreover have "round_half_even ((2::rat) ^ 52) = 2 ^ 52"
    using rhe_of_int [of "2 ^ 52"] by simp
  ultimately have "(2::int) ^ 52 \<le> round_half_even (x / 2 powi ?q)"
    by (simp only:)
  then have "rat_of_int (2 ^ 52) \<le> rat_of_int (round_half_even (x / 2 powi ?q))"
    by (simp only: of_int_le_iff)
  then have a: "(2::rat) powi 52 \<le> of_int (round_half_even (x / 2 powi ?q))"
    by simp
  have "(2::rat) powi ilog2 x = 2 powi 52 * 2 powi ?q"
    using power_int_add [of "2::rat" 52 "ilog2 x - 52"] by (simp add: assms(2))
  also have "\<dots> \<le> of_int (round_half_even (x / 2 powi ?q)) * 2 powi ?q"
    using a by (rule mult_right_mono) simp
  also have "\<dots> = fl x"
    using x by (simp only: fl_def if_False)
  finally show ?thesis .
qed

lemma fl_mono_pos:
  assumes "0 < x" and "x \<le> y"
  shows "fl x \<le> fl y"
proof -
  have y: "0 < y" using assms by simp
  have e: "ilog2 x \<le> ilog2 y" using assms by (rule ilog2_mono)
  then have q: "quantum x \<le> quantum y" by (simp add: quantum_def)
  show ?thesis
  proof (cases "quantum x = quantum y")
    case True
    have "x / 2 powi quantum y \<le> y / 2 powi quantum y"
      using assms(2) by (simp add: divide_right_mono)
    then have "round_half_even (x / 2 powi quantum y) \<le> round_half_even (y / 2 powi quantum y)"
      by (rule rhe_mono)
    then have "rat_of_int (round_half_even (x / 2 powi quantum y)) * 2 powi quantum y
               \<le> rat_of_int (round_half_even (y / 2 powi quantum y)) * 2 powi quantum y"
      by (simp add: mult_right_mono)
    then show ?thesis using assms y True by (simp add: fl_def)
  next
    case False
    with q have lt: "quantum x < quantum y" by simp
    then have qy: "quantum y = ilog2 y - 52" and ee: "ilog2 x + 1 \<le> ilog2 y"
      by (auto simp: quantum_def max_def split: if_splits)
    have "fl x \<le> 2 powi (ilog2 x + 1)" using assms(1) by (rule fl_le_power)
    also have "\<dots> \<le> 2 powi ilog2 y" using ee by (intro power_int_increasing) auto
    also have "\<dots> \<le> fl y" using y qy by (rule fl_ge_power)
    finally show ?thesis .
  qed
qed

lemma fl_mono:
  assumes "x \<le> y"
  shows "fl x \<le> fl y"
proof -
  consider "0 < x" | "x \<le> 0" "0 \<le> y" | "y < 0" by linarith
  then show ?thesis
  proof cases
    case 1
    then show ?thesis using assms by (rule fl_mono_pos)
  next
    case 2
    have "fl x \<le> 0" using fl_nonneg [of "- x"] 2(1) by (simp add: fl_minus)
    also have "0 \<le> fl y" using 2(2) by (rule fl_nonneg)
    finally show ?thesis .
  next
    case 3
    then have "fl (- y) \<le> fl (- x)" using assms by (intro fl_mono_pos) auto
    then show ?thesis by (simp add: fl_minus)
  qed
qed

text \<open>A number with at most 53 significant bits, on the grid of the doubles, is its own rounding.\<close>

lemma fl_exact:
  assumes "\<bar>m\<bar> < 2 ^ 53" and "- 1074 \<le> q"
  shows "fl (of_int m * 2 powi q) = of_int m * 2 powi q"
proof (cases "m = 0")
  case True
  then show ?thesis by simp
next
  case False
  let ?x = "rat_of_int m * 2 powi q"
  have x: "?x \<noteq> 0" using False by simp
  have "\<bar>?x\<bar> = rat_of_int \<bar>m\<bar> * 2 powi q"
    by (simp add: abs_mult)
  moreover have "rat_of_int \<bar>m\<bar> < 2 ^ 53"
    using of_int_less_iff [where 'a = rat, of "\<bar>m\<bar>" "2 ^ 53"] assms(1) by simp
  ultimately have "\<bar>?x\<bar> < 2 ^ 53 * 2 powi q"
    by (simp add: mult_strict_right_mono)
  then have "\<bar>?x\<bar> < 2 powi (53 + q)"
    by (simp add: power_int_add)
  then have "(2::rat) powi ilog2 ?x < 2 powi (53 + q)"
    using ilog2_bounds(1) [OF x] by linarith
  then have "ilog2 ?x < 53 + q"
    using power_int_increasing [of "53 + q" "ilog2 ?x" "2::rat"]
    by (cases "ilog2 ?x < 53 + q") auto
  then have ql: "quantum ?x \<le> q" using assms(2) by (simp add: quantum_def)
  have "?x / 2 powi quantum ?x = of_int m * (2 powi q / 2 powi quantum ?x)"
    by simp
  also have "\<dots> = of_int m * 2 powi (q - quantum ?x)"
    by (simp only: power_int_diff [of "2::rat" q "quantum ?x", simplified])
  also have "\<dots> = of_int (m * 2 ^ nat (q - quantum ?x))"
    using ql by (simp add: power_int_nonneg_exp)
  finally have "round_half_even (?x / 2 powi quantum ?x) = m * 2 ^ nat (q - quantum ?x)"
    by (simp only: rhe_of_int)
  then have "fl ?x = of_int (m * 2 ^ nat (q - quantum ?x)) * 2 powi quantum ?x"
    using x by (simp only: fl_def if_False)
  also have "\<dots> = of_int m * (2 powi (q - quantum ?x) * 2 powi quantum ?x)"
    using ql by (simp add: power_int_nonneg_exp)
  also have "\<dots> = ?x"
    using power_int_add [of "2::rat" "q - quantum ?x" "quantum ?x"] by simp
  finally show ?thesis .
qed

lemma fl_of_int:
  "\<bar>m\<bar> < 2 ^ 53 \<Longrightarrow> fl (of_int m) = of_int m"
  using fl_exact [of m 0] by simp

lemma float_lit_001: "float_lit (1 / 100) = Finite (5764607523034235 / 576460752303423488)"
  by code_simp

lemma float_lit_005: "float_lit (5 / 100) = Finite (3602879701896397 / 72057594037927936)"
  by code_simp

lemma float_lit_1_20: "float_lit (1 / 20) = Finite (3602879701896397 / 72057594037927936)"
  by code_simp

lemma to_double_hundredth:
  "to_double (5764607523034235 / 576460752303423488)
   = Finite (5764607523034235 / 576460752303423488)"
  by code_simp

lemma fl_5_hundredths:
  "fl (5 * (5764607523034235 / 576460752303423488)) = 3602879701896397 / 72057594037927936"
  by code_simp

lemma fl_1_hundredth:
  "fl (5764607523034235 / 576460752303423488) = 5764607523034235 / 576460752303423488"
  by code_simp

lemma float_le_refl_Finite: "float_le (Finite a) (Finite b) = (a \<le> b)"
  by auto

lemma to_double_mono:
  assumes "x \<le> y"
  shows "float_le (to_double x) (to_double y)"
  using fl_mono [OF assms] by (auto simp: to_double_def Let_def)

lemma to_double_not_NaN [simp]: "to_double x \<noteq> NaN"
  by (simp add: to_double_def Let_def)

lemma float_min_mono:
  assumes "float_le a b" and "a \<noteq> NaN" and "b \<noteq> NaN"
  shows "float_le (float_min a (Finite c)) (float_min b (Finite c))"
  using assms by (cases a; cases b) (auto simp: float_min_def)

lemma float_min_cap:
  assumes "a \<noteq> NaN"
  shows "float_le (float_min a (Finite c)) (Finite c)"
  using assms by (cases a) (auto simp: float_min_def)

lemma bonus_step_2:
  "float_min (to_double (fl (rat_of_int 2) * (5764607523034235 / 576460752303423488)))
     (Finite (3602879701896397 / 72057594037927936)) = float_lit (2 / 100)"
  by code_simp

lemma bonus_step_3:
  "float_min (to_double (fl (rat_of_int 3) * (5764607523034235 / 576460752303423488)))
     (Finite (3602879701896397 / 72057594037927936)) = float_lit (3 / 100)"
  by code_simp

lemma bonus_step_4:
  "float_min (to_double (fl (rat_of_int 4) * (5764607523034235 / 576460752303423488)))
     (Finite (3602879701896397 / 72057594037927936)) = float_lit (4 / 100)"
  by code_simp

text \<open>What \<open>bonus_extra\<close> returns when the conversion of \<open>years // 3\<close> does not overflow.\<close>

lemma bonus_extra_Inr:
  assumes "bonus_extra y = Inr a"
  shows "a = float_min (to_double (fl (of_int (y div 3)) * (5764607523034235 / 576460752303423488)))
               (Finite (3602879701896397 / 72057594037927936))
         \<and> to_double (of_int (y div 3)) = Finite (fl (of_int (y div 3)))"
proof -
  from assms obtain v where v: "to_double (of_int (y div 3)) = Finite v"
    by (auto simp: bonus_extra_def int_to_float_def ebind_def split: pyfloat.splits)
  then have "v = fl (of_int (y div 3))"
    by (auto simp: to_double_def Let_def split: if_splits)
  with v assms show ?thesis
    by (auto simp add: bonus_extra_def int_to_float_def ebind_def float_lit_001 float_lit_1_20)
qed

lemma bonus_extra_small:
  assumes "\<bar>y\<bar> < 2 ^ 53"
  shows "\<exists>a. bonus_extra y = Inr a"
proof -
  have k: "\<bar>y div 3\<bar> < 2 ^ 53" using assms by linarith
  then have f: "fl (rat_of_int (y div 3)) = rat_of_int (y div 3)" by (rule fl_of_int)
  have "rat_of_int \<bar>y div 3\<bar> < rat_of_int (2 ^ 53)"
    using k by (simp only: of_int_less_iff)
  then have "\<bar>rat_of_int (y div 3)\<bar> < 2 ^ 53" by simp
  then have "\<bar>rat_of_int (y div 3)\<bar> < 2 ^ 1024"
    by (rule less_trans) simp
  then have "to_double (rat_of_int (y div 3)) = Finite (rat_of_int (y div 3))"
    by (auto simp: to_double_def Let_def f)
  then show ?thesis
    by (simp add: bonus_extra_def int_to_float_def ebind_def)
qed

lemma bonus_extra_from_15:
  assumes h: "15 \<le> y" and a: "bonus_extra y = Inr a"
  shows "a = float_lit (5 / 100)"
proof -
  have "5 \<le> y div 3" using h by presburger
  then have "rat_of_int 5 \<le> rat_of_int (y div 3)" by (simp only: of_int_le_iff)
  then have "fl (rat_of_int 5) \<le> fl (rat_of_int (y div 3))" by (rule fl_mono)
  moreover have "fl (rat_of_int 5) = 5" using fl_of_int [of 5] by simp
  ultimately have "5 \<le> fl (rat_of_int (y div 3))" by simp
  then have "5 * (5764607523034235 / 576460752303423488)
             \<le> fl (rat_of_int (y div 3)) * (5764607523034235 / 576460752303423488)"
    by (simp add: mult_right_mono)
  then have "fl (5 * (5764607523034235 / 576460752303423488))
             \<le> fl (fl (rat_of_int (y div 3)) * (5764607523034235 / 576460752303423488))"
    by (rule fl_mono)
  then have g: "3602879701896397 / 72057594037927936
             \<le> fl (fl (rat_of_int (y div 3)) * (5764607523034235 / 576460752303423488))"
    by (simp only: fl_5_hundredths)
  have "float_min (to_double (fl (rat_of_int (y div 3)) * (5764607523034235 / 576460752303423488)))
               (Finite (3602879701896397 / 72057594037927936))
        = Finite (3602879701896397 / 72057594037927936)"
    using g by (auto simp: to_double_def Let_def float_min_def)
  with bonus_extra_Inr [OF a] show ?thesis
    by (simp only: float_lit_005)
qed

text \<open>
  Claim C6.  The extra bonus rate of \<^verbatim>\<open>FullTime.calculate_salary\<close>,
  \<^verbatim>\<open>min((years // 3) * 0.01, 0.05)\<close>, is non-decreasing in the years of service and never
  above the double \<^verbatim>\<open>0.05\<close>.  It is \<^verbatim>\<open>0\<close> for 0 to 2 years, the double \<^verbatim>\<open>0.01\<close> for 3 to 5
  years, the doubles \<^verbatim>\<open>0.02\<close>, \<^verbatim>\<open>0.03\<close> and \<^verbatim>\<open>0.04\<close> for the next three bands, and the double
  \<^verbatim>\<open>0.05\<close> from 15 years on.  The expression has a value for every number of years below
  \<open>2 ^ 53\<close> in absolute value; the only way it can fail is the \<^verbatim>\<open>OverflowError\<close> of
  converting an int beyond the range of a double, which no difference of two calendar years
  reaches.
\<close>

theorem bonus_extra_steps_and_cap:
  "(\<forall>y1 y2 a b. y1 \<le> y2 \<longrightarrow> bonus_extra y1 = Inr a \<longrightarrow> bonus_extra y2 = Inr b \<longrightarrow>
       float_le a b)
   \<and> (\<forall>y a. bonus_extra y = Inr a \<longrightarrow> float_le a (float_lit (5 / 100)))
   \<and> (\<forall>y. \<bar>y\<bar> < 2 ^ 53 \<longrightarrow> (\<exists>a. bonus_extra y = Inr a))
   \<and> (\<forall>y. 0 \<le> y \<and> y \<le> 2 \<longrightarrow> bonus_extra y = Inr (Finite 0))
   \<and> (\<forall>y. 3 \<le> y \<and> y \<le> 5 \<longrightarrow> bonus_extra y = Inr (float_lit (1 / 100)))
   \<and> (\<forall>y. 6 \<le> y \<and> y \<le> 8 \<longrightarrow> bonus_extra y = Inr (float_lit (2 / 100)))
   \<and> (\<forall>y. 9 \<le> y \<and> y \<le> 11 \<longrightarrow> bonus_extra y = Inr (float_lit (3 / 100)))
   \<and> (\<forall>y. 12 \<le> y \<and> y \<le> 14 \<longrightarrow> bonus_extra y = Inr (float_lit (4 / 100)))
   \<and> (\<forall>y a. 15 \<le> y \<longrightarrow> bonus_extra y = Inr a \<longrightarrow> a = float_lit (5 / 100))
   \<and> (\<forall>y. 15 \<le> y \<and> y < 2 ^ 53 \<longrightarrow> bonus_extra y = Inr (float_lit (5 / 100)))"
proof (intro conjI allI impI)
  fix y1 y2 :: int and a b
  assume le: "y1 \<le> y2" and a: "bonus_extra y1 = Inr a" and b: "bonus_extra y2 = Inr b"
  have "rat_of_int (y1 div 3) \<le> rat_of_int (y2 div 3)"
    using le by (simp add: zdiv_mono1)
  then have "fl (rat_of_int (y1 div 3)) \<le> fl (rat_of_int (y2 div 3))"
    by (rule fl_mono)
  then have "fl (rat_of_int (y1 div 3)) * (5764607523034235 / 576460752303423488)
             \<le> fl (rat_of_int (y2 div 3)) * (5764607523034235 / 576460752303423488)"
    by (simp add: mult_right_mono)
  then have "float_le
      (to_double (fl (rat_of_int (y1 div 3)) * (5764607523034235 / 576460752303423488)))
      (to_double (fl (rat_of_int (y2 div 3)) * (5764607523034235 / 576460752303423488)))"
    by (rule to_double_mono)
  then show "float_le a b"
    using bonus_extra_Inr [OF a] bonus_extra_Inr [OF b] by (simp add: float_min_mono)
next
  fix y a
  assume "bonus_extra y = Inr a"
  from bonus_extra_Inr [OF this] show "float_le a (float_lit (5 / 100))"
    by (simp only: float_lit_005) (simp add: float_min_cap)
next
  fix y :: int
  assume "\<bar>y\<bar> < 2 ^ 53"
  then show "\<exists>a. bonus_extra y = Inr a" by (rule bonus_extra_small)
next
  fix y :: int
  assume "0 \<le> y \<and> y \<le> 2"
  then have k: "y div 3 = 0" by simp
  have "\<bar>y\<bar> < 2 ^ 53" using \<open>0 \<le> y \<and> y \<le> 2\<close> by simp
  then obtain a where a: "bonus_extra y = Inr a" using bonus_extra_small by blast
  from bonus_extra_Inr [OF a] have "a = Finite 0"
    by (simp add: k float_min_def to_double_def)
  with a show "bonus_extra y = Inr (Finite 0)" by simp
next
  fix y :: int
  assume h: "3 \<le> y \<and> y \<le> 5"
  then have k: "y div 3 = 1" by presburger
  have "\<bar>y\<bar> < 2 ^ 53" using h by simp
  then obtain a where a: "bonus_extra y = Inr a" using bonus_extra_small by blast
  have f1: "fl 1 = 1" using fl_of_int [of 1] by simp
  from bonus_extra_Inr [OF a] have "a = Finite (5764607523034235 / 576460752303423488)"
    by (simp add: k f1 to_double_hundredth float_min_def)
  with a show "bonus_extra y = Inr (float_lit (1 / 100))"
    by (simp only: float_lit_001)
next
  fix y :: int
  assume h: "6 \<le> y \<and> y \<le> 8"
  then have k: "y div 3 = 2" by presburger
  have "\<bar>y\<bar> < 2 ^ 53" using h by simp
  then obtain a where a: "bonus_extra y = Inr a" using bonus_extra_small by blast
  from bonus_extra_Inr [OF a]
  have "a = float_min (to_double (fl (rat_of_int (y div 3)) * (5764607523034235 / 576460752303423488)))
               (Finite (3602879701896397 / 72057594037927936))"
    by (rule conjunct1)
  then have "a = float_lit (2 / 100)"
    unfolding k by (simp only: bonus_step_2)
  with a show "bonus_extra y = Inr (float_lit (2 / 100))"
    by (simp only:)
next
  fix y :: int
  assume h: "9 \<le> y \<and> y \<le> 11"
  then have k: "y div 3 = 3" by presburger
  have "\<bar>y\<bar> < 2 ^ 53" using h by simp
  then obtain a where a: "bonus_extra y = Inr a" using bonus_extra_small by blast
  from bonus_extra_Inr [OF a]
  have "a = float_min (to_double (fl (rat_of_int (y div 3)) * (5764607523034235 / 576460752303423488)))
               (Finite (3602879701896397 / 72057594037927936))"
    by (rule conjunct1)
  then have "a = float_lit (3 / 100)"
    unfolding k by (simp only: bonus_step_3)
  with a show "bonus_extra y = Inr (float_lit (3 / 100))"
    by (simp only:)
next
  fix y :: int
  assume h: "12 \<le> y \<and> y \<le> 14"
  then have k: "y div 3 = 4" by presburger
  have "\<bar>y\<bar> < 2 ^ 53" using h by simp
  then obtain a where a: "bonus_extra y = Inr a" using bonus_extra_small by blast
  from bonus_extra_Inr [OF a]
  have "a = float_min (to_double (fl (rat_of_int (y div 3)) * (5764607523034235 / 576460752303423488)))
               (Finite (3602879701896397 / 72057594037927936))"
    by (rule conjunct1)
  then have "a = float_lit (4 / 100)"
    unfolding k by (simp only: bonus_step_4)
  with a show "bonus_extra y = Inr (float_lit (4 / 100))"
    by (simp only:)
next
  fix y :: int and a
  assume "15 \<le> y" and "bonus_extra y = Inr a"
  then show "a = float_lit (5 / 100)" by (rule bonus_extra_from_15)
next
  fix y :: int
  assume h: "15 \<le> y \<and> y < 2 ^ 53"
  then have "\<bar>y\<bar> < 2 ^ 53" by simp
  then obtain a where a: "bonus_extra y = Inr a" using bonus_extra_small by blast
  from bonus_extra_from_15 [OF conjunct1 [OF h] a] have "a = float_lit (5 / 100)" .
  with a show "bonus_extra y = Inr (float_lit (5 / 100))" by (simp only:)
qed

theorem bonus_extra_steps_and_cap_witness:
  "(4::int) \<le> 20 \<and> \<bar>20::int\<bar> < 2 ^ 53 \<and> (3::int) \<le> 4 \<and> (4::int) \<le> 5 \<and> (15::int) \<le> 20
   \<and> (0::int) \<le> 1 \<and> (1::int) \<le> 2
   \<and> bonus_extra 1 = Inr (Finite 0)
   \<and> bonus_extra 4 = Inr (float_lit (1 / 100))
   \<and> bonus_extra 20 = Inr (float_lit (5 / 100))
   \<and> float_le (float_lit (1 / 100)) (float_lit (5 / 100))"
proof -
  note T = bonus_extra_steps_and_cap
  have b1: "bonus_extra 1 = Inr (Finite 0)"
    using T [THEN conjunct2, THEN conjunct2, THEN conjunct2, THEN conjunct1, rule_format, of 1]
    by simp
  have b4: "bonus_extra 4 = Inr (float_lit (1 / 100))"
    using T [THEN conjunct2, THEN conjunct2, THEN conjunct2, THEN conjunct2, THEN conjunct1,
        rule_format, of 4]
    by simp
  obtain a where a: "bonus_extra 20 = Inr a"
    using T [THEN conjunct2, THEN conjunct2, THEN conjunct1, rule_format, of 20] by auto
  have "a = float_lit (5 / 100)"
    using T [THEN conjunct2, THEN conjunct2, THEN conjunct2, THEN conjunct2, THEN conjunct2,
        THEN conjunct2, THEN conjunct2, THEN conjunct2, THEN conjunct1, rule_format, of 20 a] a
    by simp
  with a have b20: "bonus_extra 20 = Inr (float_lit (5 / 100))" by simp
  have le: "float_le (float_lit (1 / 100)) (float_lit (5 / 100))"
    using T [THEN conjunct1, rule_format, of 4 20, OF _ b4 b20] by simp
  show ?thesis
    apply (intro conjI)
              apply simp
             apply simp
            apply simp
           apply simp
          apply simp
         apply simp
        apply simp
       apply (rule b1)
      apply (rule b4)
     apply (rule b20)
    apply (rule le)
    done
qed

section \<open>Saving and loading a float written with an exponent\<close>

text \<open>The text of the float \<^verbatim>\<open>1e16\<close> and what \<^verbatim>\<open>float\<close> and \<^verbatim>\<open>int\<close> make of it.\<close>

lemma to_double_1e16: "to_double 10000000000000000 = Finite 10000000000000000"
  by code_simp

lemma to_double_2e16: "to_double 20000000000000000 = Finite 20000000000000000"
  by code_simp

lemma floorlog_1e16: "floorlog 10 10000000000000000 = 17"
proof -
  have "floorlog 10 (1 * 10 ^ 16) = floorlog 10 1 + 16"
    by (rule floorlog_power) simp_all
  moreover have "floorlog 10 1 = 1"
    using floorlog_power [of 1 10 0] by (simp add: floorlog_def)
  ultimately show ?thesis by simp
qed

lemma floorlog_1: "floorlog 10 (Suc 0) = Suc 0"
  by (simp add: floorlog_def)

lemma ilog10_1e16: "ilog10 10000000000000000 = 16"
  by (simp add: ilog10_def floorlog_1e16 floorlog_1)

lemma digits_try_1e16: "digits_try 10000000000000000 (Suc 0) = Some (1, 16)"
  by (simp add: digits_try_def ilog10_1e16 Let_def to_double_1e16 to_double_2e16)

lemma strip_zeros_1: "strip_zeros 1 16 = (1, 16)"
  by code_simp

lemma format_repr_1e16: "format_repr ''1'' 17 = ''1e+16''"
  by code_simp

lemma shortest_digits_1e16: "shortest_digits 10000000000000000 (Suc 0) 16 = (1, 16)"
  using shortest_digits.simps(2) [of 10000000000000000 "Suc 0" 15]
  by (simp add: digits_try_1e16 del: shortest_digits.simps)

lemma float_repr_1e16: "float_repr (Finite 10000000000000000) = ''1e+16''"
  by (simp add: float_repr_def shortest_digits_1e16 strip_zeros_1 format_repr_1e16 digit_char_def
        del: strip_zeros.simps shortest_digits.simps)

lemma parse_float_1e16: "parse_float ''1e+16'' = Some (Finite 10000000000000000)"
  by (simp add: parse_defs to_double_1e16 Let_def)

lemma parse_int_1e16: "parse_int ''1e+16'' = None"
  by (simp add: parse_defs Let_def)

lemma to_double_2: "to_double 2 = Finite 2"
  by code_simp

lemma float_round2_2e16:
  "float_round2 (Finite 20000000000000000) = Inr (Finite 20000000000000000)"
  by code_simp

lemma to_double_0: "to_double 0 = Finite 0"
  by code_simp

lemma parse_float_0: "parse_float ''0'' = Some (Finite 0)"
  by (simp add: parse_defs Let_def to_double_0)

lemma parse_int_0: "parse_int ''0'' = Some 0"
  by (simp add: parse_defs Let_def)

text \<open>
  Claim C1.  The code at a registry holding one part-time employee whose hourly rate is
  the float \<^verbatim>\<open>1e16\<close>: \<^verbatim>\<open>save_to_file\<close> writes the rate as \<^verbatim>\<open>1e+16\<close>, the text of that
  float. The loader reads the cell with \<^verbatim>\<open>float\<close> for the constructor, and the loop over the
  remaining columns then sees a cell without a \<^verbatim>\<open>.\<close>, fails to read it with \<^verbatim>\<open>int\<close> and
  stores the cell itself. After the save and the load the record's hourly rate is the
  string \<^verbatim>\<open>'1e+16'\<close>, not a number, and \<^verbatim>\<open>calculate_salary(2)\<close> raises \<^verbatim>\<open>TypeError\<close> where
  the saved record gives \<^verbatim>\<open>2e+16\<close>.
\<close>

theorem save_load_exponent_rate:
  "save_to_file (\<lambda>p. None)
       \<lparr>employees = [(VStr ''PT900'', costly_parttime)], storage_file = ''employees.csv''\<rparr>
     = Inr (one_file exponent_file)
   \<and> HRSystem_init (one_file exponent_file) ''employees.csv''
       = Inr \<lparr>employees = [(VStr ''PT900'', reloaded_parttime)],
              storage_file = ''employees.csv''\<rparr>
   \<and> dict_get (data costly_parttime) ''hourly_rate''
       = Some (VFloat (Finite 10000000000000000))
   \<and> dict_get (data reloaded_parttime) ''hourly_rate'' = Some (VStr ''1e+16'')
   \<and> snd (PartTime_calculate_salary costly_parttime (VInt 2) False)
       = Inr (VFloat (Finite 20000000000000000))
   \<and> snd (PartTime_calculate_salary reloaded_parttime (VInt 2) False) = Inl TypeError"
proof -
  have s: "save_to_file (\<lambda>p. None)
       \<lparr>employees = [(VStr ''PT900'', costly_parttime)], storage_file = ''employees.csv''\<rparr>
     = Inr (one_file exponent_file)"
    apply (simp add: save_to_file_def to_dict_def costly_parttime_def init_defs dict_defs Let_def
        sorted_keys_def ebind_def row_cells_def header_cell_def one_file_def
        exponent_file_def int_str_def digit_char_def float_repr_1e16)
    apply (rule ext)
    apply (simp add: sorted_keys_def)
    done
  have l: "HRSystem_init (one_file exponent_file) ''employees.csv''
       = Inr \<lparr>employees = [(VStr ''PT900'', reloaded_parttime)],
              storage_file = ''employees.csv''\<rparr>"
    by (simp add: reloaded_parttime_def exponent_file_def load_defs dict_defs init_defs
          parse_float_1e16 parse_int_1e16 parse_float_0 parse_int_0 Let_def)
  have g1: "dict_get (data costly_parttime) ''hourly_rate''
       = Some (VFloat (Finite 10000000000000000))"
    by (simp add: costly_parttime_def init_defs dict_defs)
  have g2: "dict_get (data reloaded_parttime) ''hourly_rate'' = Some (VStr ''1e+16'')"
    by (simp add: reloaded_parttime_def dict_get_def)
  have p1: "snd (PartTime_calculate_salary costly_parttime (VInt 2) False)
       = Inr (VFloat (Finite 20000000000000000))"
    by (simp add: costly_parttime_def PartTime_calculate_salary_def init_defs dict_defs ebind_def
          py_mul_def py_add_def py_round2_def float_round2_2e16 int_to_float_def to_double_0
          to_double_2e16 to_double_2)
  have p2: "snd (PartTime_calculate_salary reloaded_parttime (VInt 2) False) = Inl TypeError"
    by (simp add: reloaded_parttime_def PartTime_calculate_salary_def dict_defs ebind_def
          py_mul_def py_add_def eval_nat_numeral)
  from s l g1 g2 p1 p2 show ?thesis by simp
qed

end
